theory Spec2Isabelle
  imports Main "HOL-Library.AList"
begin

section \<open>Data model of the route layer\<close>

text \<open>
  The route layer (\<^verbatim>\<open>registerRoutes\<close>) keeps two in-memory maps, \<^verbatim>\<open>sessions\<close> and
  \<^verbatim>\<open>oauthStates\<close>, and reads and writes rows through the \<^verbatim>\<open>storage\<close> object.
  Times are JavaScript epoch milliseconds (\<^verbatim>\<open>Date.now()\<close>, \<^verbatim>\<open>getTime()\<close>), modelled as
  \<^typ>\<open>int\<close>. A value that may be \<^verbatim>\<open>null\<close> or \<^verbatim>\<open>undefined\<close> is an \<^typ>\<open>'a option\<close>.
\<close>

type_synonym id = string
type_synonym time = int

text \<open>JavaScript truthiness of an optional string: \<^verbatim>\<open>undefined\<close>, \<^verbatim>\<open>null\<close> and \<^verbatim>\<open>""\<close> are falsy.\<close>

definition truthy :: "string option \<Rightarrow> bool" where
  "truthy v = (case v of None \<Rightarrow> False | Some s \<Rightarrow> s \<noteq> [])"

text \<open>
  A handler answers with \<^verbatim>\<open>res.json(x)\<close> (status 200) or with
  \<^verbatim>\<open>res.status(n).json({ error: msg })\<close>; the refusal of \<^verbatim>\<open>/api/shifts/start\<close> also carries
  the id of the shift that is already active.
\<close>

datatype 'a reply = Json 'a | Error nat string | ErrorShift nat string id

fun status_code :: "'a reply \<Rightarrow> nat" where
  "status_code (Json x) = 200"
| "status_code (Error n msg) = n"
| "status_code (ErrorShift n msg sid) = n"

record user =
  user_id :: id
  user_discordId :: string

record server_settings =
  banAppealWebhook :: "string option"
  robloxApiKey :: "string option"
  robloxUniverseId :: "string option"

record server =
  server_id :: id
  ownerId :: id
  settings :: "server_settings option"

record server_member =
  member_id :: id
  member_userId :: id
  member_serverId :: id

text \<open>Values stored under the keys of a ban's free-form \<^verbatim>\<open>metadata\<close> object.\<close>

datatype mval =
    MBool bool
  | MStr string
  | MUnban bool time "string option"
  | MUndefined

record ban =
  ban_id :: id
  ban_serverId :: id
  robloxUserId :: string
  robloxUsername :: string
  ban_discordUserId :: "string option"
  reason :: string
  ban_createdAt :: time
  ban_expiresAt :: "time option"
  isActive :: bool
  metadata :: "(string \<times> mval) list option"

record appeal =
  appeal_id :: id
  banId :: id
  appeal_serverId :: id
  appeal_discordUserId :: "string option"
  appealText :: string
  appeal_status :: string
  reviewedBy :: "id option"
  reviewNote :: "string option"
  reviewedAt :: "time option"

record shift =
  shift_id :: id
  shift_serverId :: id
  shift_userId :: id
  startTime :: time
  endTime :: "time option"
  shift_status :: string
  metrics :: "(string \<times> nat) list"

record mtransaction =
  transaction_id :: id
  sellerId :: id
  buyerId :: id
  amount :: int
  currency :: string

text \<open>
  An escrow row: the three columns the route layer itself writes
  (\<^verbatim>\<open>createEscrow({ transactionId, amount, currency })\<close>) and the status column that the
  update route's comment (confirm, dispute, release) is about.
\<close>

record escrow =
  escrow_id :: id
  transactionId :: id
  escrow_amount :: int
  escrow_currency :: string
  escrow_status :: string

text \<open>
  The body of an escrow update is whatever the caller sends: any subset of the columns,
  each with any value. \<^const>\<open>None\<close> is a column the body does not mention.
\<close>

record escrow_body =
  body_transactionId :: "id option"
  body_amount :: "int option"
  body_currency :: "string option"
  body_escrow_status :: "string option"

record transaction_log =
  log_transactionId :: id
  log_action :: string
  performedBy :: id
  log_changes :: escrow_body

record storage =
  users :: "user list"
  servers :: "server list"
  members :: "server_member list"
  bans :: "ban list"
  appeals :: "appeal list"
  shifts :: "shift list"
  transactions :: "mtransaction list"
  escrows :: "escrow list"
  transactionLogs :: "transaction_log list"

record session =
  session_userId :: id
  session_expiresAt :: time

type_synonym sessions = "string \<rightharpoonup> session"

section \<open>The storage object\<close>

text \<open>
  Modelled from the spec: the module \<^verbatim>\<open>./storage\<close> is imported by the route layer but its
  source is not part of the repository snapshot. The spec describes it as a relational
  store of single-entity rows with single-row updates, so each table is a list of rows, a
  lookup returns the first row that matches, an update changes the columns named in the
  patch on the rows with the given id and leaves an absent (\<^verbatim>\<open>undefined\<close>) column alone,
  and a create appends the row.
\<close>

definition getUser :: "storage \<Rightarrow> id \<Rightarrow> user option" where
  "getUser st uid = find (\<lambda>u. user_id u = uid) (users st)"

definition getServer :: "storage \<Rightarrow> id \<Rightarrow> server option" where
  "getServer st sid = find (\<lambda>s. server_id s = sid) (servers st)"

definition getServerMemberByUserAndServer :: "storage \<Rightarrow> id \<Rightarrow> id \<Rightarrow> server_member option" where
  "getServerMemberByUserAndServer st uid sid =
     find (\<lambda>m. member_userId m = uid \<and> member_serverId m = sid) (members st)"

definition getBan :: "storage \<Rightarrow> id \<Rightarrow> ban option" where
  "getBan st bid = find (\<lambda>b. ban_id b = bid) (bans st)"

text \<open>
  The lookup by player is not taken to filter on \<^const>\<open>isActive\<close>: its callers in the route
  layer test \<^verbatim>\<open>ban && ban.isActive\<close> themselves and re-activate the row it returns.
\<close>

definition getBanByRobloxUserId :: "storage \<Rightarrow> id \<Rightarrow> string \<Rightarrow> ban option" where
  "getBanByRobloxUserId st sid rid =
     find (\<lambda>b. ban_serverId b = sid \<and> robloxUserId b = rid) (bans st)"

record ban_patch =
  patch_isActive :: "bool option"
  patch_metadata :: "(string \<times> mval) list option"

definition apply_ban_patch :: "ban_patch \<Rightarrow> ban \<Rightarrow> ban" where
  "apply_ban_patch p b =
     b\<lparr>isActive := (case patch_isActive p of None \<Rightarrow> isActive b | Some v \<Rightarrow> v),
       metadata := (case patch_metadata p of None \<Rightarrow> metadata b | Some m \<Rightarrow> Some m)\<rparr>"

definition updateBan :: "storage \<Rightarrow> id \<Rightarrow> ban_patch \<Rightarrow> storage" where
  "updateBan st bid p =
     st\<lparr>bans := map (\<lambda>b. if ban_id b = bid then apply_ban_patch p b else b) (bans st)\<rparr>"

definition getAppeal :: "storage \<Rightarrow> id \<Rightarrow> appeal option" where
  "getAppeal st aid = find (\<lambda>a. appeal_id a = aid) (appeals st)"

record appeal_patch =
  patch_status :: "string option"
  patch_reviewNote :: "string option"
  patch_reviewedBy :: "id option"
  patch_reviewedAt :: "time option"

definition apply_appeal_patch :: "appeal_patch \<Rightarrow> appeal \<Rightarrow> appeal" where
  "apply_appeal_patch p a =
     a\<lparr>appeal_status := (case patch_status p of None \<Rightarrow> appeal_status a | Some v \<Rightarrow> v),
       reviewNote := (case patch_reviewNote p of None \<Rightarrow> reviewNote a | Some v \<Rightarrow> Some v),
       reviewedBy := (case patch_reviewedBy p of None \<Rightarrow> reviewedBy a | Some v \<Rightarrow> Some v),
       reviewedAt := (case patch_reviewedAt p of None \<Rightarrow> reviewedAt a | Some v \<Rightarrow> Some v)\<rparr>"

text \<open>An update returns the row as it is afterwards (\<^verbatim>\<open>undefined\<close> when there is none).\<close>

definition updateAppeal :: "storage \<Rightarrow> id \<Rightarrow> appeal_patch \<Rightarrow> appeal option \<times> storage" where
  "updateAppeal st aid p =
     (let st' = st\<lparr>appeals :=
                   map (\<lambda>a. if appeal_id a = aid then apply_appeal_patch p a else a) (appeals st)\<rparr>
      in (getAppeal st' aid, st'))"

definition getShift :: "storage \<Rightarrow> id \<Rightarrow> shift option" where
  "getShift st shid = find (\<lambda>s. shift_id s = shid) (shifts st)"

definition getActiveShiftByUserId :: "storage \<Rightarrow> id \<Rightarrow> id \<Rightarrow> shift option" where
  "getActiveShiftByUserId st uid sid =
     find (\<lambda>s. shift_userId s = uid \<and> shift_serverId s = sid \<and> shift_status s = ''active'')
       (shifts st)"

text \<open>The id of a new row is chosen by the store; it is a parameter of the model.\<close>

definition createShift :: "storage \<Rightarrow> shift \<Rightarrow> shift \<times> storage" where
  "createShift st row = (row, st\<lparr>shifts := shifts st @ [row]\<rparr>)"

record shift_patch =
  patch_endTime :: "time option"
  patch_shift_status :: "string option"
  patch_metrics :: "(string \<times> nat) list option"

definition apply_shift_patch :: "shift_patch \<Rightarrow> shift \<Rightarrow> shift" where
  "apply_shift_patch p s =
     s\<lparr>endTime := (case patch_endTime p of None \<Rightarrow> endTime s | Some v \<Rightarrow> Some v),
       shift_status := (case patch_shift_status p of None \<Rightarrow> shift_status s | Some v \<Rightarrow> v),
       metrics := (case patch_metrics p of None \<Rightarrow> metrics s | Some v \<Rightarrow> v)\<rparr>"

definition updateShift :: "storage \<Rightarrow> id \<Rightarrow> shift_patch \<Rightarrow> shift option \<times> storage" where
  "updateShift st shid p =
     (let st' = st\<lparr>shifts :=
                   map (\<lambda>s. if shift_id s = shid then apply_shift_patch p s else s) (shifts st)\<rparr>
      in (getShift st' shid, st'))"

definition getTransaction :: "storage \<Rightarrow> id \<Rightarrow> mtransaction option" where
  "getTransaction st tid = find (\<lambda>t. transaction_id t = tid) (transactions st)"

definition getEscrow :: "storage \<Rightarrow> id \<Rightarrow> escrow option" where
  "getEscrow st eid = find (\<lambda>e. escrow_id e = eid) (escrows st)"

definition apply_escrow_body :: "escrow_body \<Rightarrow> escrow \<Rightarrow> escrow" where
  "apply_escrow_body p e =
     e\<lparr>transactionId := (case body_transactionId p of None \<Rightarrow> transactionId e | Some v \<Rightarrow> v),
       escrow_amount := (case body_amount p of None \<Rightarrow> escrow_amount e | Some v \<Rightarrow> v),
       escrow_currency := (case body_currency p of None \<Rightarrow> escrow_currency e | Some v \<Rightarrow> v),
       escrow_status := (case body_escrow_status p of None \<Rightarrow> escrow_status e | Some v \<Rightarrow> v)\<rparr>"

definition updateEscrow :: "storage \<Rightarrow> id \<Rightarrow> escrow_body \<Rightarrow> escrow option \<times> storage" where
  "updateEscrow st eid p =
     (let st' = st\<lparr>escrows :=
                   map (\<lambda>e. if escrow_id e = eid then apply_escrow_body p e else e) (escrows st)\<rparr>
      in (getEscrow st' eid, st'))"

definition createTransactionLog :: "storage \<Rightarrow> transaction_log \<Rightarrow> storage" where
  "createTransactionLog st l = st\<lparr>transactionLogs := transactionLogs st @ [l]\<rparr>"

section \<open>Sessions\<close>

text \<open>\<^verbatim>\<open>createSession\<close>: the token comes from \<^verbatim>\<open>randomBytes(32)\<close> and is a parameter here.\<close>

definition createSession :: "sessions \<Rightarrow> time \<Rightarrow> string \<Rightarrow> id \<Rightarrow> sessions" where
  "createSession ss now token uid =
     ss(token \<mapsto> \<lparr>session_userId = uid, session_expiresAt = now + 7 * 24 * 60 * 60 * 1000\<rparr>)"

text \<open>
  \<^verbatim>\<open>getUserFromSession\<close>: a falsy token (absent or empty) gives \<^verbatim>\<open>null\<close> at once; an unknown or
  expired token is deleted from the map and gives \<^verbatim>\<open>null\<close>; otherwise the result is whatever
  \<^verbatim>\<open>storage.getUser\<close> finds for the session's user id.
\<close>

definition getUserFromSession ::
  "storage \<Rightarrow> sessions \<Rightarrow> time \<Rightarrow> string option \<Rightarrow> user option \<times> sessions" where
  "getUserFromSession st ss now token =
     (case token of
        None \<Rightarrow> (None, ss)
      | Some t \<Rightarrow>
          if t = [] then (None, ss)
          else (case ss t of
                  None \<Rightarrow> (None, ss(t := None))
                | Some s \<Rightarrow>
                    if session_expiresAt s < now then (None, ss(t := None))
                    else (getUser st (session_userId s), ss)))"

text \<open>
  \<^verbatim>\<open>requireAuth\<close>: answers 401 when no user was found, and otherwise hands the user to the
  route (\<^verbatim>\<open>req.user = user; next()\<close>).
\<close>

definition requireAuth ::
  "storage \<Rightarrow> sessions \<Rightarrow> time \<Rightarrow> string option \<Rightarrow> user reply \<times> sessions" where
  "requireAuth st ss now token =
     (case getUserFromSession st ss now token of
        (None, ss') \<Rightarrow> (Error 401 ''Not authenticated'', ss')
      | (Some u, ss') \<Rightarrow> (Json u, ss'))"

section \<open>The appeal webhook\<close>

record webhook_payload =
  pl_appealId :: id
  pl_action :: string
  pl_status :: string
  pl_userId :: "string option"
  pl_userRobloxId :: string
  pl_robloxUsername :: string
  pl_reason :: string
  pl_appealText :: string
  pl_reviewNote :: "string option"
  pl_timestamp :: time

text \<open>
  What one \<^verbatim>\<open>fetch\<close> does: it resolves with a response that has a status, or it rejects
  (network error, or the abort of the 5 second timer). \<^verbatim>\<open>response.ok\<close> is a status in
  the range 200 to 299.
\<close>

datatype fetch_outcome = Response nat | Rejected string

definition response_ok :: "nat \<Rightarrow> bool" where
  "response_ok status = (200 \<le> status \<and> status \<le> 299)"

text \<open>
  What the function does to the outside: a POST of a payload to a URL (the flag says
  whether the request carries the abort signal), and a wait of so many milliseconds.
\<close>

datatype io_event = Post string webhook_payload bool | Delay nat

datatype webhook_error = Bad_status nat | Fetch_failed string

record webhook_result =
  success :: bool
  error :: "webhook_error option"

text \<open>
  \<^verbatim>\<open>callBanAppealWebhook\<close>. The network is the parameter \<open>net\<close>: \<open>net k\<close> is the outcome of
  the \<open>k\<close>-th \<^verbatim>\<open>fetch\<close> the function makes (counted from 0). The result comes with the
  trace of what was done. The error reported after a failed retry is the one of the
  first attempt.
\<close>

definition callBanAppealWebhook ::
  "(nat \<Rightarrow> fetch_outcome) \<Rightarrow> time \<Rightarrow> string \<Rightarrow> appeal \<Rightarrow> ban \<Rightarrow> string
     \<Rightarrow> webhook_result \<times> io_event list" where
  "callBanAppealWebhook net now webhookUrl appeal ban action =
     (let payload = \<lparr>pl_appealId = appeal_id appeal, pl_action = action,
                      pl_status = appeal_status appeal, pl_userId = ban_discordUserId ban,
                      pl_userRobloxId = robloxUserId ban, pl_robloxUsername = robloxUsername ban,
                      pl_reason = reason ban, pl_appealText = appealText appeal,
                      pl_reviewNote = reviewNote appeal, pl_timestamp = now\<rparr>;
          first = (case net 0 of
                     Response status \<Rightarrow>
                       if \<not> response_ok status then Some (Bad_status status) else None
                   | Rejected msg \<Rightarrow> Some (Fetch_failed msg))
      in case first of
           None \<Rightarrow> (\<lparr>success = True, error = None\<rparr>, [Post webhookUrl payload True])
         | Some e \<Rightarrow>
             (let trace = [Post webhookUrl payload True, Delay 1000, Post webhookUrl payload False]
              in case net 1 of
                   Response status \<Rightarrow>
                     if response_ok status then (\<lparr>success = True, error = None\<rparr>, trace)
                     else (\<lparr>success = False, error = Some e\<rparr>, trace)
                 | Rejected msg \<Rightarrow> (\<lparr>success = False, error = Some e\<rparr>, trace)))"

section \<open>Discord OAuth: the CSRF nonce\<close>

type_synonym oauth_states = "string \<rightharpoonup> time"

record state_data =
  nonce :: "string option"
  invite :: "string option"
  returnTo :: "string option"

text \<open>
  \<^verbatim>\<open>GET /api/auth/discord\<close>. The nonce comes from \<^verbatim>\<open>randomBytes(16)\<close> and is a parameter. The
  handler stores the nonce with its expiry and redirects to Discord with the state data
  (base64url of its JSON text) in the URL.
\<close>

definition get_api_auth_discord ::
  "oauth_states \<Rightarrow> time \<Rightarrow> string \<Rightarrow> string option \<Rightarrow> string option \<Rightarrow> state_data \<times> oauth_states" where
  "get_api_auth_discord os now new_nonce inviteCode return_to =
     (let stateData = \<lparr>nonce = Some new_nonce,
                        invite = (if truthy inviteCode then inviteCode else None),
                        returnTo = (if truthy return_to then return_to else None)\<rparr>;
          expiresAt = now + 10 * 60 * 1000
      in (stateData, os(new_nonce \<mapsto> expiresAt)))"

record callback_query =
  q_code :: "string option"
  q_state :: "string option"
  q_error :: "string option"

text \<open>
  What the callback does with the state: it either answers at once with a redirect to
  \<^verbatim>\<open>/?error=...\<close> (the error code, and the detail for \<^verbatim>\<open>oauth_failed\<close>), or it goes on to the
  token exchange with the invite code and return path taken from the state. What follows
  the token exchange (it ends in a redirect as well) is not part of the model.
\<close>

datatype callback_step = Redirect string "string option" | Token_exchange "string option" "string option"

text \<open>
  \<^verbatim>\<open>GET /api/auth/discord/callback\<close>, up to the token exchange. \<open>decode\<close> stands for
  \<^verbatim>\<open>JSON.parse(Buffer.from(state, "base64url").toString())\<close>: \<^const>\<open>None\<close> when that throws,
  and a nonce of \<^const>\<open>None\<close> when the decoded value has no string under \<^verbatim>\<open>nonce\<close>.
\<close>

definition get_api_auth_discord_callback ::
  "(string \<Rightarrow> state_data option) \<Rightarrow> oauth_states \<Rightarrow> time \<Rightarrow> callback_query
     \<Rightarrow> callback_step \<times> oauth_states" where
  "get_api_auth_discord_callback decode os now q =
     (if truthy (q_error q) then (Redirect ''oauth_failed'' (q_error q), os)
      else if \<not> truthy (q_code q) then (Redirect ''missing_code'' None, os)
      else case q_state q of
             None \<Rightarrow> (Redirect ''missing_state'' None, os)
           | Some state \<Rightarrow>
               if state = [] then (Redirect ''missing_state'' None, os)
               else (case decode state of
                       None \<Rightarrow> (Redirect ''invalid_state_format'' None, os)
                     | Some stateData \<Rightarrow>
                         (case nonce stateData of
                            None \<Rightarrow> (Redirect ''invalid_state'' None, os)
                          | Some n \<Rightarrow>
                              (case os n of
                                 None \<Rightarrow> (Redirect ''invalid_state'' None, os)
                               | Some expiresAt \<Rightarrow>
                                   if expiresAt < now
                                   then (Redirect ''state_expired'' None, os(n := None))
                                   else (Token_exchange (invite stateData) (returnTo stateData),
                                         os(n := None))))))"

section \<open>Effects of the route handlers\<close>

text \<open>
  Messages sent to the WebSocket clients, calls to the Roblox Cloud client and the
  fire-and-forget call of the appeal webhook, in the order the handler makes them.
\<close>

datatype broadcast =
    Ban_removed id id string
  | Appeal_updated id "string option" id
  | Shift_started id id id
  | Shift_ended id id id int
  | Ban_check id string

datatype effect =
    Broadcast broadcast
  | Roblox_unban string string string
  | Appeal_webhook string "appeal option" ban

section \<open>Appeals\<close>

record appeal_body =
  body_status :: "string option"
  body_reviewNote :: "string option"

text \<open>What \<^verbatim>\<open>robloxCloud.unbanUser\<close> resolves with.\<close>

record unban_result =
  unban_success :: bool
  unban_error :: "string option"

record appeal_response =
  updated_appeal :: "appeal option"
  banUpdated :: bool
  robloxUnbanned :: bool

text \<open>
  \<^verbatim>\<open>PATCH /api/appeals/:id\<close>, behind \<^const>\<open>requireAuth\<close>: \<open>u\<close> is \<^verbatim>\<open>req.user\<close>, \<open>aid\<close> is
  \<^verbatim>\<open>req.params.id\<close>, \<open>roblox\<close> is what the Roblox Cloud client answers if it is called, and
  \<open>now\<close> is the clock. The handler returns its response, the storage afterwards and its
  effects. Its \<^verbatim>\<open>catch\<close> branch (status 500) is taken when storage or the Roblox client
  throws, which this model of them does not do.
\<close>

definition patch_api_appeals ::
  "storage \<Rightarrow> time \<Rightarrow> unban_result \<Rightarrow> user \<Rightarrow> id \<Rightarrow> appeal_body
     \<Rightarrow> appeal_response reply \<times> storage \<times> effect list" where
  "patch_api_appeals st now roblox u aid body =
     (case getAppeal st aid of
        None \<Rightarrow> (Error 404 ''Appeal not found'', st, [])
      | Some appeal \<Rightarrow>
          (case getServer st (appeal_serverId appeal) of
             None \<Rightarrow> (Error 403 ''Not authorized'', st, [])
           | Some server \<Rightarrow>
               if ownerId server \<noteq> user_id u then (Error 403 ''Not authorized'', st, [])
               else
                 (case getBan st (banId appeal) of
                    None \<Rightarrow> (Error 404 ''Associated ban not found'', st, [])
                  | Some ban \<Rightarrow>
                      (let status = body_status body;
                           approved = (status = Some ''approved'');
                           robloxApiKey = (case settings server of None \<Rightarrow> None
                                           | Some cfg \<Rightarrow> robloxApiKey cfg);
                           robloxUniverseId = (case settings server of None \<Rightarrow> None
                                               | Some cfg \<Rightarrow> robloxUniverseId cfg);
                           configured = (truthy robloxApiKey \<and> truthy robloxUniverseId);
                           robloxUnbanResult = (if approved \<and> configured then Some roblox else None);
                           st1 = (if approved
                                  then updateBan st (ban_id ban)
                                         \<lparr>patch_isActive = Some False, patch_metadata = None\<rparr>
                                  else st);
                           st2 = (if approved
                                  then updateBan st1 (ban_id ban)
                                         \<lparr>patch_isActive = None,
                                          patch_metadata = Some
                                            (AList.update ''robloxUnbanResult''
                                               (case robloxUnbanResult of
                                                  None \<Rightarrow> MUndefined
                                                | Some r \<Rightarrow> MUnban (unban_success r) now (unban_error r))
                                               (AList.update ''appealId'' (MStr (appeal_id appeal))
                                                  (AList.update ''unbannedViaAppeal'' (MBool True)
                                                     (case metadata ban of None \<Rightarrow> [] | Some m \<Rightarrow> m))))\<rparr>
                                  else st1);
                           eff1 = (if approved
                                   then (if configured
                                         then [Roblox_unban (the robloxUniverseId) (robloxUserId ban)
                                                 (the robloxApiKey)]
                                         else [])
                                        @ [Broadcast (Ban_removed (ban_id ban) (server_id server)
                                                        (robloxUsername ban))]
                                   else []);
                           (updated, st3) = updateAppeal st2 aid
                                              \<lparr>patch_status = status,
                                               patch_reviewNote = body_reviewNote body,
                                               patch_reviewedBy = Some (user_id u),
                                               patch_reviewedAt = Some now\<rparr>;
                           eff2 = [Broadcast (Appeal_updated aid status (server_id server))];
                           webhookUrl = (case settings server of None \<Rightarrow> None
                                         | Some cfg \<Rightarrow> banAppealWebhook cfg);
                           eff3 = (if truthy webhookUrl
                                   then [Appeal_webhook (the webhookUrl) updated ban] else [])
                       in (Json \<lparr>updated_appeal = updated,
                                 banUpdated = approved,
                                 robloxUnbanned =
                                   (approved \<and> (case robloxUnbanResult of
                                                   None \<Rightarrow> False | Some r \<Rightarrow> unban_success r))\<rparr>,
                           st3, eff1 @ eff2 @ eff3)))))"

section \<open>In-game ban check\<close>

datatype ban_check = Not_banned | Banned id string time "time option"

text \<open>
  \<^verbatim>\<open>GET /api/game/check-ban/:robloxUserId\<close>, behind the API key check: \<open>sid\<close> is the
  server of the key (\<^verbatim>\<open>req.serverId\<close>).
\<close>

definition get_api_game_check_ban ::
  "storage \<Rightarrow> time \<Rightarrow> id \<Rightarrow> string \<Rightarrow> ban_check reply \<times> storage \<times> effect list" where
  "get_api_game_check_ban st now sid rid =
     (case getBanByRobloxUserId st sid rid of
        None \<Rightarrow> (Json Not_banned, st, [])
      | Some ban \<Rightarrow>
          if (case ban_expiresAt ban of None \<Rightarrow> False | Some e \<Rightarrow> e < now)
          then (Json Not_banned,
                updateBan st (ban_id ban) \<lparr>patch_isActive = Some False, patch_metadata = None\<rparr>,
                [])
          else (Json (Banned (ban_id ban) (reason ban) (ban_createdAt ban) (ban_expiresAt ban)),
                st, [Broadcast (Ban_check sid rid)]))"

section \<open>Moderator shifts\<close>

text \<open>\<^verbatim>\<open>POST /api/shifts/start\<close>: \<open>serverId\<close> is \<^verbatim>\<open>req.body.serverId\<close>.\<close>

definition post_api_shifts_start ::
  "storage \<Rightarrow> time \<Rightarrow> id \<Rightarrow> user \<Rightarrow> string option \<Rightarrow> shift reply \<times> storage \<times> effect list" where
  "post_api_shifts_start st now new_id u serverId =
     (case serverId of
        None \<Rightarrow> (Error 400 ''serverId required'', st, [])
      | Some sid \<Rightarrow>
          if sid = [] then (Error 400 ''serverId required'', st, [])
          else (case getServer st sid of
                  None \<Rightarrow> (Error 404 ''Server not found'', st, [])
                | Some server \<Rightarrow>
                    (let isOwner = (ownerId server = user_id u);
                         isMember = getServerMemberByUserAndServer st (user_id u) sid
                     in if \<not> isOwner \<and> isMember = None
                        then (Error 403 ''Not authorized - you must be a member of this server'', st, [])
                        else (case getActiveShiftByUserId st (user_id u) sid of
                                Some activeShift \<Rightarrow>
                                  (ErrorShift 400 ''You already have an active shift''
                                     (shift_id activeShift), st, [])
                              | None \<Rightarrow>
                                  (let (shift, st') = createShift st
                                         \<lparr>shift_id = new_id, shift_serverId = sid,
                                          shift_userId = user_id u, startTime = now,
                                          endTime = None, shift_status = ''active'',
                                          metrics = [(''actionsCount'', 0), (''bansIssued'', 0),
                                                     (''appealsReviewed'', 0), (''ticketsHandled'', 0),
                                                     (''reportsProcessed'', 0)]\<rparr>
                                   in (Json shift, st',
                                       [Broadcast (Shift_started sid (user_id u) (shift_id shift))]))))))"

text \<open>
  The same handler in the two parts that its \<^verbatim>\<open>await\<close>s separate: everything up to the
  answer of \<^verbatim>\<open>storage.getActiveShiftByUserId\<close>, which only reads and either replies or
  decides to go on (\<^const>\<open>None\<close>), and the call of \<^verbatim>\<open>storage.createShift\<close> with what follows
  it. Between the two, other requests are served: the second part runs on the storage
  as it is by then.
\<close>

definition post_api_shifts_start_check :: "storage \<Rightarrow> user \<Rightarrow> string option \<Rightarrow> shift reply option" where
  "post_api_shifts_start_check st u serverId =
     (case serverId of
        None \<Rightarrow> Some (Error 400 ''serverId required'')
      | Some sid \<Rightarrow>
          if sid = [] then Some (Error 400 ''serverId required'')
          else (case getServer st sid of
                  None \<Rightarrow> Some (Error 404 ''Server not found'')
                | Some server \<Rightarrow>
                    (let isOwner = (ownerId server = user_id u);
                         isMember = getServerMemberByUserAndServer st (user_id u) sid
                     in if \<not> isOwner \<and> isMember = None
                        then Some (Error 403 ''Not authorized - you must be a member of this server'')
                        else (case getActiveShiftByUserId st (user_id u) sid of
                                Some activeShift \<Rightarrow>
                                  Some (ErrorShift 400 ''You already have an active shift''
                                          (shift_id activeShift))
                              | None \<Rightarrow> None))))"

definition post_api_shifts_start_create ::
  "storage \<Rightarrow> time \<Rightarrow> id \<Rightarrow> user \<Rightarrow> id \<Rightarrow> shift reply \<times> storage \<times> effect list" where
  "post_api_shifts_start_create st now new_id u sid =
     (let (shift, st') = createShift st
            \<lparr>shift_id = new_id, shift_serverId = sid,
             shift_userId = user_id u, startTime = now,
             endTime = None, shift_status = ''active'',
             metrics = [(''actionsCount'', 0), (''bansIssued'', 0),
                        (''appealsReviewed'', 0), (''ticketsHandled'', 0),
                        (''reportsProcessed'', 0)]\<rparr>
      in (Json shift, st', [Broadcast (Shift_started sid (user_id u) (shift_id shift))]))"

text \<open>\<^verbatim>\<open>POST /api/shifts/end\<close>.\<close>

definition post_api_shifts_end ::
  "storage \<Rightarrow> time \<Rightarrow> user \<Rightarrow> string option \<Rightarrow> shift option reply \<times> storage \<times> effect list" where
  "post_api_shifts_end st now u serverId =
     (case serverId of
        None \<Rightarrow> (Error 400 ''serverId required'', st, [])
      | Some sid \<Rightarrow>
          if sid = [] then (Error 400 ''serverId required'', st, [])
          else (case getServer st sid of
                  None \<Rightarrow> (Error 404 ''Server not found'', st, [])
                | Some server \<Rightarrow>
                    (let isOwner = (ownerId server = user_id u);
                         isMember = getServerMemberByUserAndServer st (user_id u) sid
                     in if \<not> isOwner \<and> isMember = None
                        then (Error 403 ''Not authorized - you must be a member of this server'', st, [])
                        else (case getActiveShiftByUserId st (user_id u) sid of
                                None \<Rightarrow> (Error 404 ''No active shift found'', st, [])
                              | Some activeShift \<Rightarrow>
                                  (let endTime = now;
                                       (updated, st') = updateShift st (shift_id activeShift)
                                          \<lparr>patch_endTime = Some endTime,
                                           patch_shift_status = Some ''completed'',
                                           patch_metrics = None\<rparr>
                                   in (Json updated, st',
                                       [Broadcast (Shift_ended sid (user_id u) (shift_id activeShift)
                                                     (endTime - startTime activeShift))]))))))"

text \<open>\<^verbatim>\<open>POST /api/servers/:serverId/shifts/start\<close>: only the owner of the server passes.\<close>

definition post_api_servers_shifts_start ::
  "storage \<Rightarrow> time \<Rightarrow> id \<Rightarrow> user \<Rightarrow> id \<Rightarrow> shift reply \<times> storage \<times> effect list" where
  "post_api_servers_shifts_start st now new_id u sid =
     (case getServer st sid of
        None \<Rightarrow> (Error 403 ''Not authorized'', st, [])
      | Some server \<Rightarrow>
          if ownerId server \<noteq> user_id u then (Error 403 ''Not authorized'', st, [])
          else (case getActiveShiftByUserId st (user_id u) sid of
                  Some activeShift \<Rightarrow> (Error 400 ''You already have an active shift'', st, [])
                | None \<Rightarrow>
                    (let (shift, st') = createShift st
                           \<lparr>shift_id = new_id, shift_serverId = sid, shift_userId = user_id u,
                            startTime = now, endTime = None, shift_status = ''active'',
                            metrics = []\<rparr>
                     in (Json shift, st', []))))"

text \<open>
  \<^verbatim>\<open>POST /api/servers/:serverId/shifts/:shiftId/end\<close>. \<open>shiftMetrics\<close> is what
  \<^verbatim>\<open>storage.getShiftMetrics(shiftId, shift.startTime, endTime)\<close> returns.
\<close>

definition post_api_servers_shifts_end ::
  "storage \<Rightarrow> time \<Rightarrow> (string \<times> nat) list \<Rightarrow> user \<Rightarrow> id \<Rightarrow> id
     \<Rightarrow> shift option reply \<times> storage \<times> effect list" where
  "post_api_servers_shifts_end st now shiftMetrics u sid shid =
     (case getServer st sid of
        None \<Rightarrow> (Error 403 ''Not authorized'', st, [])
      | Some server \<Rightarrow>
          if ownerId server \<noteq> user_id u then (Error 403 ''Not authorized'', st, [])
          else (case getShift st shid of
                  None \<Rightarrow> (Error 404 ''Shift not found'', st, [])
                | Some shift \<Rightarrow>
                    if shift_serverId shift \<noteq> sid then (Error 404 ''Shift not found'', st, [])
                    else if shift_status shift \<noteq> ''active''
                    then (Error 400 ''Shift is not active'', st, [])
                    else (let (updatedShift, st') = updateShift st shid
                                \<lparr>patch_endTime = Some now,
                                 patch_shift_status = Some ''completed'',
                                 patch_metrics = Some shiftMetrics\<rparr>
                          in (Json updatedShift, st', []))))"

section \<open>Marketplace escrow\<close>

text \<open>\<^verbatim>\<open>PATCH /api/marketplace/escrow/:id\<close>, behind \<^const>\<open>requireAuth\<close>.\<close>

definition patch_api_marketplace_escrow ::
  "storage \<Rightarrow> user \<Rightarrow> id \<Rightarrow> escrow_body \<Rightarrow> escrow option reply \<times> storage" where
  "patch_api_marketplace_escrow st u eid body =
     (case getEscrow st eid of
        None \<Rightarrow> (Error 404 ''Escrow not found'', st)
      | Some escrow \<Rightarrow>
          (case getTransaction st (transactionId escrow) of
             None \<Rightarrow> (Error 403 ''Not authorized'', st)
           | Some transaction \<Rightarrow>
               if sellerId transaction \<noteq> user_id u \<and> buyerId transaction \<noteq> user_id u
               then (Error 403 ''Not authorized'', st)
               else (let (updated, st1) = updateEscrow st eid body;
                         st2 = createTransactionLog st1
                                 \<lparr>log_transactionId = transactionId escrow,
                                  log_action = ''escrow_updated'',
                                  performedBy = user_id u,
                                  log_changes = body\<rparr>
                     in (Json updated, st2))))"

section \<open>Notions used to state the properties\<close>

text \<open>A \<^verbatim>\<open>fetch\<close> "returned ok": it resolved, with a status in the ok range.\<close>

definition fetch_ok :: "fetch_outcome \<Rightarrow> bool" where
  "fetch_ok out = (case out of Response status \<Rightarrow> response_ok status | Rejected msg \<Rightarrow> False)"

text \<open>
  A run of the OAuth endpoints: requests to \<^verbatim>\<open>/api/auth/discord\<close> (with the clock, the
  fresh nonce and the two query parameters) and to the callback (with the clock and the
  query), served one after the other on the same nonce store.
\<close>

datatype oauth_request =
    Initiate time string "string option" "string option"
  | Callback time callback_query

definition proceeds :: "callback_step \<Rightarrow> bool" where
  "proceeds r = (case r of Token_exchange inviteCode return_to \<Rightarrow> True | Redirect code detail \<Rightarrow> False)"

text \<open>The nonce a callback request carries in its state, if the state decodes to one.\<close>

definition carried_nonce :: "(string \<Rightarrow> state_data option) \<Rightarrow> callback_query \<Rightarrow> string option" where
  "carried_nonce decode q =
     (case q_state q of
        None \<Rightarrow> None
      | Some state \<Rightarrow>
          if state = [] then None
          else (case decode state of None \<Rightarrow> None | Some stateData \<Rightarrow> nonce stateData))"

text \<open>How many callbacks of a run went on to the token exchange with nonce \<open>n\<close>.\<close>

fun validations ::
  "(string \<Rightarrow> state_data option) \<Rightarrow> string \<Rightarrow> oauth_states \<Rightarrow> oauth_request list \<Rightarrow> nat" where
  "validations decode n os [] = 0"
| "validations decode n os (Initiate now m ic rt # reqs) =
     validations decode n (snd (get_api_auth_discord os now m ic rt)) reqs"
| "validations decode n os (Callback now q # reqs) =
     (case get_api_auth_discord_callback decode os now q of
        (r, os') \<Rightarrow>
          (if proceeds r \<and> carried_nonce decode q = Some n then 1 else 0)
          + validations decode n os' reqs)"

text \<open>How many times a run issued the nonce \<open>n\<close>.\<close>

fun issues :: "string \<Rightarrow> oauth_request list \<Rightarrow> nat" where
  "issues n [] = 0"
| "issues n (Initiate now m ic rt # reqs) = (if m = n then 1 else 0) + issues n reqs"
| "issues n (Callback now q # reqs) = issues n reqs"

text \<open>No two active shifts of the table belong to the same user on the same server.\<close>

definition one_active_shift :: "storage \<Rightarrow> bool" where
  "one_active_shift st =
     distinct (map (\<lambda>s. (shift_userId s, shift_serverId s))
                 (filter (\<lambda>s. shift_status s = ''active'') (shifts st)))"

section \<open>Example data\<close>

definition ex_owner :: user where
  "ex_owner = \<lparr>user_id = ''u-owner'', user_discordId = ''1001''\<rparr>"

definition ex_mod :: user where
  "ex_mod = \<lparr>user_id = ''u-mod'', user_discordId = ''1002''\<rparr>"

definition ex_server :: server where
  "ex_server = \<lparr>server_id = ''srv-1'', ownerId = ''u-owner'', settings = None\<rparr>"

definition ex_ban :: ban where
  "ex_ban = \<lparr>ban_id = ''ban-1'', ban_serverId = ''srv-1'', robloxUserId = ''4242'',
              robloxUsername = ''builder'', ban_discordUserId = None, reason = ''exploiting'',
              ban_createdAt = 1000, ban_expiresAt = None, isActive = True, metadata = None\<rparr>"

definition ex_appeal :: appeal where
  "ex_appeal = \<lparr>appeal_id = ''app-1'', banId = ''ban-1'', appeal_serverId = ''srv-1'',
                 appeal_discordUserId = None, appealText = ''please'', appeal_status = ''pending'',
                 reviewedBy = None, reviewNote = None, reviewedAt = None\<rparr>"

text \<open>A network on which the first request gets a 500 and the second a 204.\<close>

definition ex_net :: "nat \<Rightarrow> fetch_outcome" where
  "ex_net k = (if k = 0 then Response 500 else Response 204)"

definition ex_unban :: unban_result where
  "ex_unban = \<lparr>unban_success = True, unban_error = None\<rparr>"

definition ex_approve :: appeal_body where
  "ex_approve = \<lparr>body_status = Some ''approved'', body_reviewNote = None\<rparr>"

text \<open>A store with one pending appeal against one active ban.\<close>

definition ex_pending :: storage where
  "ex_pending = \<lparr>users = [ex_owner, ex_mod], servers = [ex_server], members = [],
                  bans = [ex_ban], appeals = [ex_appeal],
                  shifts = [], transactions = [], escrows = [], transactionLogs = []\<rparr>"

text \<open>The same store after the appeal has been rejected.\<close>

definition ex_reviewed :: storage where
  "ex_reviewed = ex_pending\<lparr>appeals :=
       [ex_appeal\<lparr>appeal_status := ''rejected'', reviewedBy := Some ''u-owner'',
                  reviewNote := Some ''no'', reviewedAt := Some 2000\<rparr>]\<rparr>"

text \<open>The ban of the store runs out at time 2000.\<close>

definition ex_expiring :: storage where
  "ex_expiring = ex_pending\<lparr>bans := [ex_ban\<lparr>ban_expiresAt := Some 2000\<rparr>]\<rparr>"

definition ex_shift :: shift where
  "ex_shift = \<lparr>shift_id = ''sh-1'', shift_serverId = ''srv-1'', shift_userId = ''u-mod'',
                startTime = 1000, endTime = None, shift_status = ''active'', metrics = []\<rparr>"

text \<open>The moderator is a member of the server and on shift.\<close>

definition ex_on_shift :: storage where
  "ex_on_shift = ex_pending\<lparr>
       members := [\<lparr>member_id = ''m-1'', member_userId = ''u-mod'', member_serverId = ''srv-1''\<rparr>],
       shifts := [ex_shift]\<rparr>"

text \<open>
  The moderator is still on shift, but the owner has removed the membership
  (\<^verbatim>\<open>DELETE /api/servers/:serverId/members/:memberId\<close>).
\<close>

definition ex_removed_member :: storage where
  "ex_removed_member = ex_on_shift\<lparr>members := []\<rparr>"

definition ex_seller :: user where
  "ex_seller = \<lparr>user_id = ''u-seller'', user_discordId = ''1003''\<rparr>"

definition ex_buyer :: user where
  "ex_buyer = \<lparr>user_id = ''u-buyer'', user_discordId = ''1004''\<rparr>"

definition ex_transaction :: mtransaction where
  "ex_transaction = \<lparr>transaction_id = ''tx-1'', sellerId = ''u-seller'', buyerId = ''u-buyer'',
                      amount = 500, currency = ''USD''\<rparr>"

definition ex_escrow :: escrow where
  "ex_escrow = \<lparr>escrow_id = ''esc-1'', transactionId = ''tx-1'', escrow_amount = 500,
                 escrow_currency = ''USD'', escrow_status = ''held''\<rparr>"

definition ex_market :: storage where
  "ex_market = \<lparr>users = [ex_seller, ex_buyer, ex_mod], servers = [], members = [], bans = [],
                 appeals = [], shifts = [], transactions = [ex_transaction],
                 escrows = [ex_escrow], transactionLogs = []\<rparr>"

definition ex_release :: escrow_body where
  "ex_release = \<lparr>body_transactionId = None, body_amount = None, body_currency = None,
                  body_escrow_status = Some ''released''\<rparr>"

text \<open>A nonce as \<^verbatim>\<open>randomBytes(16).toString("hex")\<close> makes them: 32 hexadecimal digits.\<close>

definition ex_nonce :: string where
  "ex_nonce = ''00112233445566778899aabbccddeeff''"

text \<open>
  The state string that \<^verbatim>\<open>/api/auth/discord\<close> puts in the URL for that nonce when the request
  has neither invite nor return path: the base64url text (without padding) of the JSON
  text \<^verbatim>\<open>{"nonce":"00112233445566778899aabbccddeeff","invite":null,"returnTo":null}\<close>.
\<close>

definition ex_state :: string where
  "ex_state =
     ''eyJub25jZSI6IjAwMTEyMjMzNDQ1NTY2Nzc4ODk5YWFiYmNjZGRlZWZmIiwiaW52aXRlIjpudWxsLCJyZXR1cm5UbyI6bnVsbH0''"

text \<open>
  A decoder that agrees with \<^verbatim>\<open>JSON.parse(Buffer.from(state, "base64url").toString())\<close> on
  that state string, the only one the examples present to it.
\<close>

definition ex_decode :: "string \<Rightarrow> state_data option" where
  "ex_decode state =
     (if state = ex_state then Some \<lparr>nonce = Some ex_nonce, invite = None, returnTo = None\<rparr>
      else None)"

definition ex_query :: callback_query where
  "ex_query = \<lparr>q_code = Some ''abc'', q_state = Some ex_state, q_error = None\<rparr>"

text \<open>A session map with one session, of the owner, that expires at time 8000.\<close>

definition ex_sessions :: sessions where
  "ex_sessions = Map.empty(''tok-1'' \<mapsto> \<lparr>session_userId = ''u-owner'', session_expiresAt = 8000\<rparr>)"

text \<open>The store in which the owner's user row is gone.\<close>

definition ex_no_owner :: storage where
  "ex_no_owner = ex_pending\<lparr>users := [ex_mod]\<rparr>"

text \<open>The nonce store after \<^verbatim>\<open>/api/auth/discord\<close> has issued that nonce at time 1000.\<close>

definition ex_issued :: oauth_states where
  "ex_issued = snd (get_api_auth_discord Map.empty 1000 ex_nonce None None)"

text \<open>The moderator is a member of the server and has no shift.\<close>

definition ex_idle :: storage where
  "ex_idle = ex_on_shift\<lparr>shifts := []\<rparr>"

section \<open>Lemmas about the storage model\<close>

lemma find_map_preserved:
  "(\<And>x. P (g x) = P x) \<Longrightarrow> find P (map g xs) = map_option g (find P xs)"
  by (induction xs) auto

lemma find_holds: "find P xs = Some x \<Longrightarrow> P x \<and> x \<in> set xs"
  by (induction xs) (auto split: if_splits)

lemma getAppeal_updateAppeal:
  "getAppeal (snd (updateAppeal st aid p)) aid = map_option (apply_appeal_patch p) (getAppeal st aid)"
proof -
  have "find (\<lambda>a. appeal_id a = aid)
          (map (\<lambda>a. if appeal_id a = aid then apply_appeal_patch p a else a) (appeals st))
        = map_option (\<lambda>a. if appeal_id a = aid then apply_appeal_patch p a else a)
            (find (\<lambda>a. appeal_id a = aid) (appeals st))"
    by (rule find_map_preserved) (simp add: apply_appeal_patch_def)
  also have "\<dots> = map_option (apply_appeal_patch p) (find (\<lambda>a. appeal_id a = aid) (appeals st))"
    by (cases "find (\<lambda>a. appeal_id a = aid) (appeals st)") (auto dest: find_holds)
  finally show ?thesis
    by (simp add: getAppeal_def updateAppeal_def Let_def)
qed

lemma fst_updateAppeal: "fst (updateAppeal st aid p) = getAppeal (snd (updateAppeal st aid p)) aid"
  by (simp add: updateAppeal_def Let_def)

lemma bans_updateAppeal: "bans (snd (updateAppeal st aid p)) = bans st"
  by (simp add: updateAppeal_def Let_def)

lemma getAppeal_updateBan: "getAppeal (updateBan st bid p) aid = getAppeal st aid"
  by (simp add: getAppeal_def updateBan_def)

lemma getBanByRobloxUserId_updateBan:
  "getBanByRobloxUserId (updateBan st bid p) sid rid =
     map_option (\<lambda>b. if ban_id b = bid then apply_ban_patch p b else b)
       (getBanByRobloxUserId st sid rid)"
  unfolding getBanByRobloxUserId_def updateBan_def
  by (simp add: find_map_preserved apply_ban_patch_def)

lemma shifts_updateShift:
  "shifts (snd (updateShift st shid p)) =
     map (\<lambda>s. if shift_id s = shid then apply_shift_patch p s else s) (shifts st)"
  by (simp add: updateShift_def Let_def)

lemma getEscrow_updateEscrow:
  "getEscrow (snd (updateEscrow st eid p)) eid' =
     map_option (\<lambda>e. if escrow_id e = eid then apply_escrow_body p e else e) (getEscrow st eid')"
  unfolding getEscrow_def updateEscrow_def Let_def
  by (simp add: find_map_preserved apply_escrow_body_def)

lemma fst_updateEscrow: "fst (updateEscrow st eid p) = getEscrow (snd (updateEscrow st eid p)) eid"
  by (simp add: updateEscrow_def Let_def)

lemma escrows_updateEscrow:
  "escrows (snd (updateEscrow st eid p)) =
     map (\<lambda>e. if escrow_id e = eid then apply_escrow_body p e else e) (escrows st)"
  by (simp add: updateEscrow_def Let_def)

lemma getEscrow_createTransactionLog: "getEscrow (createTransactionLog st l) eid = getEscrow st eid"
  by (simp add: getEscrow_def createTransactionLog_def)

section \<open>Lemmas about the handlers\<close>

text \<open>The appeal update, once the appeal, its server (owned by the requester) and its ban are found.\<close>

lemma patch_api_appeals_reply:
  assumes "getAppeal st aid = Some a"
    and "getServer st (appeal_serverId a) = Some srv"
    and "ownerId srv = user_id u"
    and "getBan st (banId a) = Some b"
  shows "\<exists>resp. fst (patch_api_appeals st now roblox u aid body) = Json resp \<and>
           banUpdated resp = (body_status body = Some ''approved'') \<and>
           updated_appeal resp = getAppeal (fst (snd (patch_api_appeals st now roblox u aid body))) aid"
  using assms
  by (simp add: patch_api_appeals_def Let_def case_prod_beta fst_updateAppeal)

lemma patch_api_appeals_appeals:
  assumes "getAppeal st aid = Some a"
    and "getServer st (appeal_serverId a) = Some srv"
    and "ownerId srv = user_id u"
    and "getBan st (banId a) = Some b"
  shows "getAppeal (fst (snd (patch_api_appeals st now roblox u aid body))) aid =
           Some (apply_appeal_patch
                   \<lparr>patch_status = body_status body, patch_reviewNote = body_reviewNote body,
                    patch_reviewedBy = Some (user_id u), patch_reviewedAt = Some now\<rparr> a)"
  using assms
  by (simp add: patch_api_appeals_def Let_def case_prod_beta getAppeal_updateAppeal
        getAppeal_updateBan)

lemma patch_api_appeals_bans:
  assumes "getAppeal st aid = Some a"
    and "getServer st (appeal_serverId a) = Some srv"
    and "ownerId srv = user_id u"
    and "getBan st (banId a) = Some b"
    and "body_status body = Some ''approved''"
  shows "map (\<lambda>x. (ban_id x, isActive x)) (bans (fst (snd (patch_api_appeals st now roblox u aid body)))) =
           map (\<lambda>x. (ban_id x, if ban_id x = ban_id b then False else isActive x)) (bans st)"
  using assms
  by (simp add: patch_api_appeals_def Let_def case_prod_beta bans_updateAppeal updateBan_def
        apply_ban_patch_def comp_def)

lemma patch_api_appeals_ban_inactive:
  assumes "getAppeal st aid = Some a"
    and "getServer st (appeal_serverId a) = Some srv"
    and "ownerId srv = user_id u"
    and "getBan st (banId a) = Some b"
    and "body_status body = Some ''approved''"
  shows "(\<exists>b'. getBan (fst (snd (patch_api_appeals st now roblox u aid body))) (banId a) = Some b'
               \<and> \<not> isActive b') \<and>
         (\<forall>x \<in> set (bans (fst (snd (patch_api_appeals st now roblox u aid body)))).
            ban_id x = banId a \<longrightarrow> \<not> isActive x)"
proof -
  let ?st' = "fst (snd (patch_api_appeals st now roblox u aid body))"
  have bid: "ban_id b = banId a" and b_in: "b \<in> set (bans st)"
    using assms(4) by (auto simp: getBan_def dest: find_holds)
  have rows: "map (\<lambda>x. (ban_id x, isActive x)) (bans ?st') =
              map (\<lambda>x. (ban_id x, if ban_id x = ban_id b then False else isActive x)) (bans st)"
    using assms by (rule patch_api_appeals_bans)
  have all: "\<forall>x \<in> set (bans ?st'). ban_id x = banId a \<longrightarrow> \<not> isActive x"
  proof (intro ballI impI)
    fix x assume x: "x \<in> set (bans ?st')" and xid: "ban_id x = banId a"
    from x have "(ban_id x, isActive x) \<in> set (map (\<lambda>x. (ban_id x, isActive x)) (bans ?st'))"
      by force
    then have "(ban_id x, isActive x) \<in>
        set (map (\<lambda>x. (ban_id x, if ban_id x = ban_id b then False else isActive x)) (bans st))"
      by (simp only: rows)
    then obtain y :: ban where "ban_id x = ban_id y"
      and "isActive x = (if ban_id y = ban_id b then False else isActive y)"
      by auto
    with xid bid show "\<not> isActive x" by simp
  qed
  have "(ban_id b, False) \<in>
      set (map (\<lambda>x. (ban_id x, if ban_id x = ban_id b then False else isActive x)) (bans st))"
    using b_in by force
  then have "(ban_id b, False) \<in> set (map (\<lambda>x. (ban_id x, isActive x)) (bans ?st'))"
    by (simp only: rows)
  then obtain x :: ban where "x \<in> set (bans ?st')" "ban_id x = banId a"
    using bid by auto
  then have "getBan ?st' (banId a) \<noteq> None"
    by (auto simp: getBan_def find_None_iff)
  then obtain b' where b': "getBan ?st' (banId a) = Some b'" by blast
  then have "b' \<in> set (bans ?st')" "ban_id b' = banId a"
    by (auto simp: getBan_def dest: find_holds)
  with all have "\<not> isActive b'" by blast
  with b' all show ?thesis by blast
qed

lemma patch_api_appeals_bans_untouched:
  assumes "body_status body \<noteq> Some ''approved''"
  shows "bans (fst (snd (patch_api_appeals st now roblox u aid body))) = bans st"
proof (cases "getAppeal st aid")
  case None
  then show ?thesis by (simp add: patch_api_appeals_def)
next
  case (Some a)
  show ?thesis
  proof (cases "getServer st (appeal_serverId a)")
    case None
    with Some show ?thesis by (simp add: patch_api_appeals_def)
  next
    case srv: (Some srv)
    show ?thesis
    proof (cases "getBan st (banId a)")
      case None
      with Some srv show ?thesis by (simp add: patch_api_appeals_def)
    next
      case ban: (Some b)
      with Some srv assms show ?thesis
        by (simp add: patch_api_appeals_def Let_def case_prod_beta bans_updateAppeal)
    qed
  qed
qed

text \<open>The two outcomes of the escrow update for an escrow that exists.\<close>

lemma patch_escrow_authorized:
  assumes "getEscrow st eid = Some e"
    and "getTransaction st (transactionId e) = Some t"
    and "sellerId t = user_id u \<or> buyerId t = user_id u"
  shows "patch_api_marketplace_escrow st u eid body =
           (Json (Some (apply_escrow_body body e)),
            createTransactionLog (snd (updateEscrow st eid body))
              \<lparr>log_transactionId = transactionId e, log_action = ''escrow_updated'',
               performedBy = user_id u, log_changes = body\<rparr>)"
proof -
  have "escrow_id e = eid"
    using assms(1) by (auto simp: getEscrow_def dest: find_holds)
  then have "fst (updateEscrow st eid body) = Some (apply_escrow_body body e)"
    using assms(1) by (simp add: fst_updateEscrow getEscrow_updateEscrow)
  then show ?thesis
    using assms by (auto simp: patch_api_marketplace_escrow_def Let_def split: prod.splits)
qed

lemma patch_escrow_unauthorized:
  assumes "getEscrow st eid = Some e"
    and "\<not> (\<exists>t. getTransaction st (transactionId e) = Some t \<and>
               (sellerId t = user_id u \<or> buyerId t = user_id u))"
  shows "patch_api_marketplace_escrow st u eid body = (Error 403 ''Not authorized'', st)"
  using assms by (auto simp: patch_api_marketplace_escrow_def split: option.splits)

text \<open>Starting a shift: the refusal, and the invariant.\<close>

lemma one_active_shift_append:
  assumes "one_active_shift st"
    and "getActiveShiftByUserId st uid sid = None"
    and "shift_userId row = uid" and "shift_serverId row = sid"
  shows "one_active_shift (snd (createShift st row))"
proof -
  have "(uid, sid) \<notin> set (map (\<lambda>s. (shift_userId s, shift_serverId s))
                              (filter (\<lambda>s. shift_status s = ''active'') (shifts st)))"
    using assms(2) by (auto simp: getActiveShiftByUserId_def find_None_iff)
  then show ?thesis
    using assms(1,3,4) by (auto simp: one_active_shift_def createShift_def)
qed

lemma post_api_shifts_start_refuses:
  "getActiveShiftByUserId st (user_id u) sid = Some a \<Longrightarrow>
   post_api_shifts_start st now new_id u (Some sid) = (r, st', effs) \<Longrightarrow>
     st' = st \<and> 400 \<le> status_code r \<and> status_code r < 500"
  by (auto simp: post_api_shifts_start_def Let_def split: option.splits if_splits)

lemma post_api_shifts_start_invariant:
  "one_active_shift st \<Longrightarrow>
   one_active_shift (fst (snd (post_api_shifts_start st now new_id u serverId)))"
  by (auto simp: post_api_shifts_start_def Let_def case_prod_beta
           split: option.splits intro!: one_active_shift_append)

lemma post_api_servers_shifts_start_refuses:
  "getActiveShiftByUserId st (user_id u) sid = Some a \<Longrightarrow>
   post_api_servers_shifts_start st now new_id u sid = (r, st', effs) \<Longrightarrow>
     st' = st \<and> 400 \<le> status_code r \<and> status_code r < 500"
  by (auto simp: post_api_servers_shifts_start_def Let_def split: option.splits if_splits)

lemma post_api_servers_shifts_start_invariant:
  "one_active_shift st \<Longrightarrow>
   one_active_shift (fst (snd (post_api_servers_shifts_start st now new_id u sid)))"
  by (auto simp: post_api_servers_shifts_start_def Let_def case_prod_beta
           split: option.splits intro!: one_active_shift_append)

text \<open>The callback and the nonce store.\<close>

lemma callback_proceeds_iff:
  "truthy (q_code q) \<Longrightarrow> \<not> truthy (q_error q) \<Longrightarrow>
   proceeds (fst (get_api_auth_discord_callback decode os now q)) =
     (\<exists>n e. carried_nonce decode q = Some n \<and> os n = Some e \<and> now \<le> e)"
  by (auto simp: get_api_auth_discord_callback_def proceeds_def carried_nonce_def
           split: option.splits if_splits)

lemma callback_store:
  "get_api_auth_discord_callback decode os now q = (r, os') \<Longrightarrow>
     os' = os \<or> (\<exists>n. carried_nonce decode q = Some n \<and> os' = os(n := None))"
  by (auto simp: get_api_auth_discord_callback_def carried_nonce_def split: option.splits if_splits)

lemma callback_consumes:
  "get_api_auth_discord_callback decode os now q = (r, os') \<Longrightarrow> proceeds r \<Longrightarrow>
     \<exists>n. carried_nonce decode q = Some n \<and> os n \<noteq> None \<and> os' = os(n := None)"
  by (auto simp: get_api_auth_discord_callback_def carried_nonce_def proceeds_def
           split: option.splits if_splits)

lemma callback_needs_stored_nonce:
  "carried_nonce decode q = Some n \<Longrightarrow> os n = None \<Longrightarrow>
     \<not> proceeds (fst (get_api_auth_discord_callback decode os now q))"
  by (auto simp: get_api_auth_discord_callback_def carried_nonce_def proceeds_def
           split: option.splits if_splits)

lemma callback_error_guard:
  "truthy (q_error q) \<Longrightarrow>
     get_api_auth_discord_callback decode os now q = (Redirect ''oauth_failed'' (q_error q), os)"
  by (simp add: get_api_auth_discord_callback_def)

lemma callback_code_guard:
  "\<not> truthy (q_error q) \<Longrightarrow> \<not> truthy (q_code q) \<Longrightarrow>
     get_api_auth_discord_callback decode os now q = (Redirect ''missing_code'' None, os)"
  by (simp add: get_api_auth_discord_callback_def)

lemma callback_redirect_store:
  "\<not> proceeds (fst (get_api_auth_discord_callback decode os now q)) \<Longrightarrow>
     snd (get_api_auth_discord_callback decode os now q) = os \<or>
     (\<exists>n e. truthy (q_code q) \<and> \<not> truthy (q_error q) \<and> carried_nonce decode q = Some n \<and>
            os n = Some e \<and> e < now \<and>
            get_api_auth_discord_callback decode os now q
              = (Redirect ''state_expired'' None, os(n := None)))"
  by (auto simp: get_api_auth_discord_callback_def carried_nonce_def proceeds_def
           split: option.splits if_splits)

lemma validations_bound:
  "validations decode n os reqs \<le> (if os n = None then 0 else 1) + issues n reqs"
proof (induction reqs arbitrary: os)
  case Nil
  then show ?case by simp
next
  case (Cons req reqs)
  show ?case
  proof (cases req)
    case (Initiate now m ic rt)
    let ?os' = "snd (get_api_auth_discord os now m ic rt)"
    have "?os' = os(m \<mapsto> now + 10 * 60 * 1000)"
      by (simp add: get_api_auth_discord_def Let_def)
    then have "(if ?os' n = None then 0 else 1)
                 \<le> (if os n = None then 0 else 1) + (if m = n then 1 else (0::nat))"
      by auto
    with Cons.IH [of ?os'] Initiate show ?thesis by auto
  next
    case (Callback now q)
    obtain r os' where step: "get_api_auth_discord_callback decode os now q = (r, os')"
      by (cases "get_api_auth_discord_callback decode os now q")
    show ?thesis
    proof (cases "proceeds r \<and> carried_nonce decode q = Some n")
      case True
      with callback_consumes [OF step] have "os n \<noteq> None" "os' n = None" by auto
      with Cons.IH [of os'] step Callback True show ?thesis by auto
    next
      case False
      from callback_store [OF step]
      have "(if os' n = None then 0 else 1) \<le> (if os n = None then 0 else (1::nat))"
        by (auto split: if_splits)
      with Cons.IH [of os'] step Callback False show ?thesis by auto
    qed
  qed
qed

text \<open>Sessions.\<close>

lemma requireAuth_cases:
  "requireAuth st ss now token = (r, ss') \<Longrightarrow>
     (r = Error 401 ''Not authenticated'') =
       (token = None \<or> token = Some [] \<or>
        (\<exists>t. token = Some t \<and>
           (ss t = None \<or>
            (\<exists>s. ss t = Some s \<and>
               (session_expiresAt s < now \<or> getUser st (session_userId s) = None)))))"
  by (auto simp: requireAuth_def getUserFromSession_def split: option.splits if_splits)

lemma requireAuth_reply:
  "requireAuth st ss now token = (r, ss') \<Longrightarrow>
     r = Error 401 ''Not authenticated'' \<or> (\<exists>usr. r = Json usr)"
  by (auto simp: requireAuth_def split: option.splits prod.splits)

lemma requireAuth_expired:
  "requireAuth st ss now (Some t) = (r, ss') \<Longrightarrow> t \<noteq> [] \<Longrightarrow> ss t = Some s \<Longrightarrow>
   session_expiresAt s < now \<Longrightarrow> ss' t = None"
  by (auto simp: requireAuth_def getUserFromSession_def split: option.splits if_splits)

lemma requireAuth_unknown:
  "ss t = None \<Longrightarrow> fst (requireAuth st ss now (Some t)) = Error 401 ''Not authenticated''"
  by (simp add: requireAuth_def getUserFromSession_def)

lemma createSession_lifetime:
  "t \<noteq> [] \<Longrightarrow> getUser st uid = Some usr \<Longrightarrow>
   fst (requireAuth st (createSession ss t0 t uid) now (Some t)) =
     (if now \<le> t0 + 604800000 then Json usr else Error 401 ''Not authenticated'')"
  by (simp add: requireAuth_def getUserFromSession_def createSession_def)

section \<open>The properties\<close>

lemmas storage_defs =
  getUser_def getServer_def getServerMemberByUserAndServer_def getBan_def
  getBanByRobloxUserId_def apply_ban_patch_def updateBan_def getAppeal_def
  apply_appeal_patch_def updateAppeal_def getShift_def getActiveShiftByUserId_def
  createShift_def apply_shift_patch_def updateShift_def getTransaction_def getEscrow_def
  apply_escrow_body_def updateEscrow_def createTransactionLog_def

lemmas ex_defs =
  ex_owner_def ex_mod_def ex_server_def ex_ban_def ex_appeal_def ex_unban_def ex_approve_def
  ex_pending_def ex_reviewed_def ex_expiring_def ex_shift_def ex_on_shift_def
  ex_removed_member_def ex_seller_def ex_buyer_def ex_transaction_def ex_escrow_def
  ex_market_def ex_release_def ex_decode_def ex_query_def ex_sessions_def ex_no_owner_def
  ex_issued_def ex_nonce_def ex_state_def ex_idle_def

subsection \<open>Appeals\<close>

text \<open>
  C1, as the code has it. \<^verbatim>\<open>PATCH /api/appeals/:id\<close> does not look at the appeal's current
  status. Whenever the appeal exists, the requester owns its server, the ban exists and
  the body names a status, the appeal's status becomes the status of the body, the review
  fields are overwritten with the requester and the time of the request, and the response
  carries the updated appeal; the ban is deactivated when the status is \<^verbatim>\<open>approved\<close> and the
  ban table is left alone otherwise. So a pending appeal moves to \<^verbatim>\<open>approved\<close> or
  \<^verbatim>\<open>rejected\<close> when the body says so, and an appeal that was already reviewed is updated
  again in the same way.
\<close>

theorem patch_overwrites_any_status:
  assumes "getAppeal st aid = Some a"
    and "getServer st (appeal_serverId a) = Some srv"
    and "ownerId srv = user_id u"
    and "getBan st (banId a) = Some b"
    and "body_status body = Some s"
    and "patch_api_appeals st now roblox u aid body = (r, st', effs)"
  shows "getAppeal st' aid =
           Some (a\<lparr>appeal_status := s,
                   reviewNote := (case body_reviewNote body of None \<Rightarrow> reviewNote a | Some v \<Rightarrow> Some v),
                   reviewedBy := Some (user_id u),
                   reviewedAt := Some now\<rparr>) \<and>
         (\<exists>resp. r = Json resp \<and> updated_appeal resp = getAppeal st' aid) \<and>
         (s = ''approved'' \<longrightarrow> (\<exists>b'. getBan st' (banId a) = Some b' \<and> \<not> isActive b')) \<and>
         (s \<noteq> ''approved'' \<longrightarrow> bans st' = bans st)"
proof -
  have st': "st' = fst (snd (patch_api_appeals st now roblox u aid body))"
    and r: "r = fst (patch_api_appeals st now roblox u aid body)"
    using assms(6) by simp_all
  have "getAppeal st' aid =
           Some (a\<lparr>appeal_status := s,
                   reviewNote := (case body_reviewNote body of None \<Rightarrow> reviewNote a | Some v \<Rightarrow> Some v),
                   reviewedBy := Some (user_id u),
                   reviewedAt := Some now\<rparr>) \<and>
         (\<exists>resp. r = Json resp \<and> updated_appeal resp = getAppeal st' aid)"
    using patch_api_appeals_appeals [OF assms(1-4), of now roblox body]
      patch_api_appeals_reply [OF assms(1-4), of now roblox body] assms(5)
    by (auto simp: st' r apply_appeal_patch_def)
  moreover have "s = ''approved'' \<longrightarrow> (\<exists>b'. getBan st' (banId a) = Some b' \<and> \<not> isActive b')"
  proof
    assume "s = ''approved''"
    with assms(5) have "body_status body = Some ''approved''" by simp
    from patch_api_appeals_ban_inactive [OF assms(1-4) this, of now roblox]
    show "\<exists>b'. getBan st' (banId a) = Some b' \<and> \<not> isActive b'"
      unfolding st' by (rule conjunct1)
  qed
  moreover have "s \<noteq> ''approved'' \<longrightarrow> bans st' = bans st"
  proof
    assume "s \<noteq> ''approved''"
    with assms(5) have "body_status body \<noteq> Some ''approved''" by simp
    then show "bans st' = bans st"
      unfolding st' by (rule patch_api_appeals_bans_untouched)
  qed
  ultimately show ?thesis by blast
qed

text \<open>The owner approves the pending appeal of the example store at time 9000.\<close>

theorem patch_overwrites_any_status_witness:
  "getAppeal ex_pending ''app-1'' = Some ex_appeal \<and>
   getAppeal (fst (snd (patch_api_appeals ex_pending 9000 ex_unban ex_owner ''app-1'' ex_approve)))
       ''app-1''
     = Some (ex_appeal\<lparr>appeal_status := ''approved'', reviewedBy := Some ''u-owner'',
                       reviewedAt := Some 9000\<rparr>)"
proof -
  let ?P = "patch_api_appeals ex_pending 9000 ex_unban ex_owner ''app-1'' ex_approve"
  have a: "getAppeal ex_pending ''app-1'' = Some ex_appeal"
    by (simp add: storage_defs ex_defs)
  have s: "getServer ex_pending (appeal_serverId ex_appeal) = Some ex_server"
    by (simp add: storage_defs ex_defs)
  have ow: "ownerId ex_server = user_id ex_owner"
    by (simp add: ex_defs)
  have b: "getBan ex_pending (banId ex_appeal) = Some ex_ban"
    by (simp add: storage_defs ex_defs)
  have bs: "body_status ex_approve = Some ''approved''"
    by (simp add: ex_defs)
  have run: "?P = (fst ?P, fst (snd ?P), snd (snd ?P))"
    by simp
  from patch_overwrites_any_status [OF a s ow b bs run, THEN conjunct1] a show ?thesis
    by (simp add: ex_approve_def ex_owner_def ex_appeal_def)
qed

text \<open>
  C1, as the spec has it, fails: the appeal of this store was rejected at time 2000; a
  later PATCH with status \<^verbatim>\<open>approved\<close> is answered with 200, moves the appeal to \<^verbatim>\<open>approved\<close>,
  overwrites the review time and deactivates the ban.
\<close>

theorem reviewed_appeal_transitions_again:
  "map appeal_status (appeals ex_reviewed) = [''rejected''] \<and>
   map isActive (bans ex_reviewed) = [True] \<and>
   status_code (fst (patch_api_appeals ex_reviewed 9000 ex_unban ex_owner ''app-1'' ex_approve)) = 200 \<and>
   map appeal_status
     (appeals (fst (snd (patch_api_appeals ex_reviewed 9000 ex_unban ex_owner ''app-1'' ex_approve))))
     = [''approved''] \<and>
   map reviewedAt
     (appeals (fst (snd (patch_api_appeals ex_reviewed 9000 ex_unban ex_owner ''app-1'' ex_approve))))
     = [Some 9000] \<and>
   map isActive
     (bans (fst (snd (patch_api_appeals ex_reviewed 9000 ex_unban ex_owner ''app-1'' ex_approve))))
     = [False]"
  by (simp add: patch_api_appeals_def storage_defs ex_defs truthy_def Let_def)

text \<open>
  C2. When the body of \<^verbatim>\<open>PATCH /api/appeals/:id\<close> has status \<^verbatim>\<open>approved\<close>, the requester owns
  the appeal's server and the associated ban exists, the response is a 200 with
  \<^verbatim>\<open>banUpdated = true\<close>, and afterwards the ban is found in storage with \<^verbatim>\<open>isActive = false\<close>
  (as is every row with the ban's id).
\<close>

theorem approve_deactivates_ban:
  assumes "getAppeal st aid = Some a"
    and "getServer st (appeal_serverId a) = Some srv"
    and "ownerId srv = user_id u"
    and "getBan st (banId a) = Some b"
    and "body_status body = Some ''approved''"
    and "patch_api_appeals st now roblox u aid body = (r, st', effs)"
  shows "(\<exists>resp. r = Json resp \<and> banUpdated resp) \<and>
         (\<exists>b'. getBan st' (banId a) = Some b' \<and> \<not> isActive b') \<and>
         (\<forall>x \<in> set (bans st'). ban_id x = banId a \<longrightarrow> \<not> isActive x)"
proof -
  have st': "st' = fst (snd (patch_api_appeals st now roblox u aid body))"
    and r: "r = fst (patch_api_appeals st now roblox u aid body)"
    using assms(6) by simp_all
  have "\<exists>resp. r = Json resp \<and> banUpdated resp"
    using patch_api_appeals_reply [OF assms(1-4), of now roblox body] assms(5) r by auto
  with patch_api_appeals_ban_inactive [OF assms(1-5), of now roblox] show ?thesis
    unfolding st' by blast
qed

theorem approve_deactivates_ban_witness:
  "getBan ex_pending ''ban-1'' = Some ex_ban \<and> isActive ex_ban \<and>
   (\<exists>resp. fst (patch_api_appeals ex_pending 9000 ex_unban ex_owner ''app-1'' ex_approve) = Json resp
           \<and> banUpdated resp) \<and>
   (\<exists>b'. getBan (fst (snd (patch_api_appeals ex_pending 9000 ex_unban ex_owner ''app-1'' ex_approve)))
            ''ban-1'' = Some b' \<and> \<not> isActive b')"
proof -
  let ?P = "patch_api_appeals ex_pending 9000 ex_unban ex_owner ''app-1'' ex_approve"
  have a: "getAppeal ex_pending ''app-1'' = Some ex_appeal"
    by (simp add: storage_defs ex_defs)
  have s: "getServer ex_pending (appeal_serverId ex_appeal) = Some ex_server"
    by (simp add: storage_defs ex_defs)
  have ow: "ownerId ex_server = user_id ex_owner"
    by (simp add: ex_defs)
  have b: "getBan ex_pending (banId ex_appeal) = Some ex_ban"
    by (simp add: storage_defs ex_defs)
  have bs: "body_status ex_approve = Some ''approved''"
    by (simp add: ex_defs)
  have run: "?P = (fst ?P, fst (snd ?P), snd (snd ?P))"
    by simp
  have id: "banId ex_appeal = ''ban-1''" and act: "isActive ex_ban"
    by (simp_all add: ex_defs)
  from approve_deactivates_ban [OF a s ow b bs run] b act show ?thesis
    by (simp add: id)
qed

text \<open>
  C3. The appeal webhook is tried at most twice. When the first POST returns ok, it is the
  only request. When it fails (a response that is not ok, or a rejected fetch), the
  function waits 1000 ms and sends one more POST with the same payload to the same URL,
  and nothing after it. The function reports success exactly when the first POST, or else
  the retry, returned ok.
\<close>

theorem webhook_retries_once:
  "callBanAppealWebhook net now url appeal ban action = (r, trace) \<Longrightarrow>
     \<exists>payload.
       (fetch_ok (net 0) \<longrightarrow> trace = [Post url payload True]) \<and>
       (\<not> fetch_ok (net 0) \<longrightarrow>
          trace = [Post url payload True, Delay 1000, Post url payload False]) \<and>
       (success r \<longleftrightarrow> fetch_ok (net 0) \<or> (\<not> fetch_ok (net 0) \<and> fetch_ok (net 1)))"
  by (auto simp: callBanAppealWebhook_def fetch_ok_def Let_def
           split: fetch_outcome.splits if_splits option.splits)

theorem webhook_retries_once_witness:
  "\<not> fetch_ok (ex_net 0) \<and> fetch_ok (ex_net 1) \<and>
   (\<exists>payload.
      snd (callBanAppealWebhook ex_net 5000 ''https://hooks.example/a'' ex_appeal ex_ban ''updated'')
        = [Post ''https://hooks.example/a'' payload True, Delay 1000,
           Post ''https://hooks.example/a'' payload False]) \<and>
   success (fst (callBanAppealWebhook ex_net 5000 ''https://hooks.example/a'' ex_appeal ex_ban ''updated''))"
  using webhook_retries_once [of ex_net 5000 "''https://hooks.example/a''" ex_appeal ex_ban "''updated''"
      "fst (callBanAppealWebhook ex_net 5000 ''https://hooks.example/a'' ex_appeal ex_ban ''updated'')"
      "snd (callBanAppealWebhook ex_net 5000 ''https://hooks.example/a'' ex_appeal ex_ban ''updated'')"]
  by (simp add: fetch_ok_def response_ok_def ex_net_def)

subsection \<open>Marketplace escrow\<close>

text \<open>
  C4. For an escrow row that exists, \<^verbatim>\<open>PATCH /api/marketplace/escrow/:id\<close> changes it exactly
  when the requester is the seller or the buyer of the escrow's transaction. Then every
  column the body names is set to the body's value on the row (and the response is the
  updated row); in particular a status in the body becomes the row's status whatever the
  status was. Any other requester gets 403 and storage is unchanged.
\<close>

theorem escrow_patch_authorization:
  assumes "getEscrow st eid = Some e"
    and "patch_api_marketplace_escrow st u eid body = (r, st')"
  shows "((\<exists>t. getTransaction st (transactionId e) = Some t \<and>
              (sellerId t = user_id u \<or> buyerId t = user_id u)) \<longrightarrow>
            r = Json (Some (apply_escrow_body body e)) \<and>
            escrows st' = map (\<lambda>x. if escrow_id x = eid then apply_escrow_body body x else x) (escrows st) \<and>
            (\<forall>v. body_escrow_status body = Some v \<longrightarrow>
                  (\<forall>x \<in> set (escrows st'). escrow_id x = eid \<longrightarrow> escrow_status x = v))) \<and>
         (\<not> (\<exists>t. getTransaction st (transactionId e) = Some t \<and>
                (sellerId t = user_id u \<or> buyerId t = user_id u)) \<longrightarrow>
            r = Error 403 ''Not authorized'' \<and> st' = st)"
proof (intro conjI impI)
  assume "\<exists>t. getTransaction st (transactionId e) = Some t \<and>
              (sellerId t = user_id u \<or> buyerId t = user_id u)"
  then obtain t where t: "getTransaction st (transactionId e) = Some t"
    "sellerId t = user_id u \<or> buyerId t = user_id u" by blast
  have res: "(r, st') =
           (Json (Some (apply_escrow_body body e)),
            createTransactionLog (snd (updateEscrow st eid body))
              \<lparr>log_transactionId = transactionId e, log_action = ''escrow_updated'',
               performedBy = user_id u, log_changes = body\<rparr>)"
    unfolding assms(2) [symmetric] by (rule patch_escrow_authorized [OF assms(1) t])
  then show "r = Json (Some (apply_escrow_body body e))" by simp
  from res have st': "st' = createTransactionLog (snd (updateEscrow st eid body))
              \<lparr>log_transactionId = transactionId e, log_action = ''escrow_updated'',
               performedBy = user_id u, log_changes = body\<rparr>" by simp
  show rows: "escrows st' = map (\<lambda>x. if escrow_id x = eid then apply_escrow_body body x else x) (escrows st)"
    by (simp add: st' createTransactionLog_def escrows_updateEscrow)
  show "\<forall>v. body_escrow_status body = Some v \<longrightarrow>
            (\<forall>x \<in> set (escrows st'). escrow_id x = eid \<longrightarrow> escrow_status x = v)"
  proof (intro allI impI ballI)
    fix v x
    assume v: "body_escrow_status body = Some v"
      and x: "x \<in> set (escrows st')" and xid: "escrow_id x = eid"
    from x have "x \<in> (\<lambda>y. if escrow_id y = eid then apply_escrow_body body y else y) ` set (escrows st)"
      unfolding rows by simp
    then obtain y where y: "x = (if escrow_id y = eid then apply_escrow_body body y else y)"
      by blast
    show "escrow_status x = v"
    proof (cases "escrow_id y = eid")
      case True
      with y v show ?thesis by (simp add: apply_escrow_body_def)
    next
      case False
      with y xid show ?thesis by simp
    qed
  qed
next
  assume "\<not> (\<exists>t. getTransaction st (transactionId e) = Some t \<and>
                (sellerId t = user_id u \<or> buyerId t = user_id u))"
  then have "(r, st') = (Error 403 ''Not authorized'', st)"
    unfolding assms(2) [symmetric] by (rule patch_escrow_unauthorized [OF assms(1)])
  then show "r = Error 403 ''Not authorized''" "st' = st" by simp_all
qed

text \<open>The buyer sets the escrow of the example market to \<^verbatim>\<open>released\<close>; the moderator, who is
  no party of the transaction, is refused.\<close>

theorem escrow_patch_authorization_witness:
  "getEscrow ex_market ''esc-1'' = Some ex_escrow \<and>
   fst (patch_api_marketplace_escrow ex_market ex_buyer ''esc-1'' ex_release)
     = Json (Some (ex_escrow\<lparr>escrow_status := ''released''\<rparr>)) \<and>
   patch_api_marketplace_escrow ex_market ex_mod ''esc-1'' ex_release
     = (Error 403 ''Not authorized'', ex_market)"
proof -
  let ?P = "patch_api_marketplace_escrow ex_market ex_buyer ''esc-1'' ex_release"
  let ?Q = "patch_api_marketplace_escrow ex_market ex_mod ''esc-1'' ex_release"
  have e: "getEscrow ex_market ''esc-1'' = Some ex_escrow"
    by (simp add: storage_defs ex_defs)
  have t: "getTransaction ex_market (transactionId ex_escrow) = Some ex_transaction"
    by (simp add: storage_defs ex_defs)
  have p: "?P = (fst ?P, snd ?P)" and q: "?Q = (fst ?Q, snd ?Q)"
    by simp_all
  from escrow_patch_authorization [OF e p] t
  have "fst ?P = Json (Some (apply_escrow_body ex_release ex_escrow))"
    by (simp add: ex_transaction_def ex_buyer_def)
  moreover from escrow_patch_authorization [OF e q] t
  have "fst ?Q = Error 403 ''Not authorized'' \<and> snd ?Q = ex_market"
    by (simp add: ex_transaction_def ex_mod_def)
  ultimately show ?thesis
    using e q by (simp add: apply_escrow_body_def ex_release_def ex_escrow_def)
qed

text \<open>
  C5, as the code has it. The update route has no notion of a confirmation. The escrow of
  a transaction becomes \<^verbatim>\<open>released\<close> when the buyer or the seller sends a body with status
  \<^verbatim>\<open>released\<close>, and a request turns a row that was not released into a released one only
  in that case: the requester is the buyer or the seller and the body asks for it.
\<close>

theorem escrow_released_by_either_party:
  assumes "getEscrow st eid = Some e"
    and "getTransaction st (transactionId e) = Some t"
    and "patch_api_marketplace_escrow st u eid body = (r, st')"
  shows "((user_id u = buyerId t \<or> user_id u = sellerId t) \<and>
            body_escrow_status body = Some ''released'' \<longrightarrow>
            (\<exists>e'. getEscrow st' eid = Some e' \<and> escrow_status e' = ''released'')) \<and>
         (\<forall>e'. getEscrow st' eid = Some e' \<and> escrow_status e' = ''released'' \<and>
                escrow_status e \<noteq> ''released'' \<longrightarrow>
                (user_id u = buyerId t \<or> user_id u = sellerId t) \<and>
                body_escrow_status body = Some ''released'')"
proof (cases "sellerId t = user_id u \<or> buyerId t = user_id u")
  case True
  have eid: "escrow_id e = eid"
    using assms(1) by (auto simp: getEscrow_def dest: find_holds)
  have "(r, st') =
           (Json (Some (apply_escrow_body body e)),
            createTransactionLog (snd (updateEscrow st eid body))
              \<lparr>log_transactionId = transactionId e, log_action = ''escrow_updated'',
               performedBy = user_id u, log_changes = body\<rparr>)"
    unfolding assms(3) [symmetric] by (rule patch_escrow_authorized [OF assms(1,2) True])
  then have "st' = createTransactionLog (snd (updateEscrow st eid body))
              \<lparr>log_transactionId = transactionId e, log_action = ''escrow_updated'',
               performedBy = user_id u, log_changes = body\<rparr>" by simp
  then have "getEscrow st' eid = Some (apply_escrow_body body e)"
    using assms(1) eid by (simp add: getEscrow_createTransactionLog getEscrow_updateEscrow)
  then show ?thesis
    using True by (auto simp: apply_escrow_body_def split: option.splits)
next
  case False
  with assms(2) have "\<not> (\<exists>t. getTransaction st (transactionId e) = Some t \<and>
               (sellerId t = user_id u \<or> buyerId t = user_id u))" by auto
  then have "(r, st') = (Error 403 ''Not authorized'', st)"
    unfolding assms(3) [symmetric] by (rule patch_escrow_unauthorized [OF assms(1)])
  then have "st' = st" by simp
  with assms(1) False show ?thesis by auto
qed

theorem escrow_released_by_either_party_witness:
  "user_id ex_buyer = buyerId ex_transaction \<and>
   (\<exists>e'. getEscrow (snd (patch_api_marketplace_escrow ex_market ex_buyer ''esc-1'' ex_release)) ''esc-1''
            = Some e' \<and> escrow_status e' = ''released'')"
proof -
  let ?P = "patch_api_marketplace_escrow ex_market ex_buyer ''esc-1'' ex_release"
  have e: "getEscrow ex_market ''esc-1'' = Some ex_escrow"
    by (simp add: storage_defs ex_defs)
  have t: "getTransaction ex_market (transactionId ex_escrow) = Some ex_transaction"
    by (simp add: storage_defs ex_defs)
  have p: "?P = (fst ?P, snd ?P)"
    by simp
  have who: "user_id ex_buyer = buyerId ex_transaction"
    and what: "body_escrow_status ex_release = Some ''released''"
    by (simp_all add: ex_defs)
  from escrow_released_by_either_party [OF e t p] who what show ?thesis
    by simp
qed

text \<open>
  C5, as the spec has it, fails: the seller, who is not the buyer, sends status
  \<^verbatim>\<open>released\<close> and the held escrow is released.
\<close>

theorem seller_releases_escrow:
  "user_id ex_seller = sellerId ex_transaction \<and>
   user_id ex_seller \<noteq> buyerId ex_transaction \<and>
   map escrow_status (escrows ex_market) = [''held''] \<and>
   map escrow_status
     (escrows (snd (patch_api_marketplace_escrow ex_market ex_seller ''esc-1'' ex_release)))
     = [''released'']"
  by (simp add: patch_api_marketplace_escrow_def storage_defs ex_defs Let_def)

subsection \<open>Ban check\<close>

text \<open>
  C6. Let the ban check find a ban for the server and the Roblox user id. If the ban has
  an \<^verbatim>\<open>expiresAt\<close> earlier than the current time, the answer is \<^verbatim>\<open>isBanned = false\<close> and the
  ban is stored with \<^verbatim>\<open>isActive = false\<close> (the same lookup now returns it so). If the ban has
  no \<^verbatim>\<open>expiresAt\<close>, or one that is not earlier than the current time, the answer is
  \<^verbatim>\<open>isBanned = true\<close> with the ban's data, and storage is unchanged.
\<close>

theorem check_ban_lazy_expiry:
  assumes "getBanByRobloxUserId st sid rid = Some b"
    and "get_api_game_check_ban st now sid rid = (r, st', effs)"
  shows "((\<exists>e. ban_expiresAt b = Some e \<and> e < now) \<longrightarrow>
            r = Json Not_banned \<and>
            getBanByRobloxUserId st' sid rid = Some (b\<lparr>isActive := False\<rparr>) \<and>
            (\<forall>x \<in> set (bans st'). ban_id x = ban_id b \<longrightarrow> \<not> isActive x)) \<and>
         ((ban_expiresAt b = None \<or> (\<exists>e. ban_expiresAt b = Some e \<and> now \<le> e)) \<longrightarrow>
            r = Json (Banned (ban_id b) (reason b) (ban_createdAt b) (ban_expiresAt b)) \<and>
            st' = st)"
proof (intro conjI impI)
  assume "\<exists>e. ban_expiresAt b = Some e \<and> e < now"
  then have st': "st' = updateBan st (ban_id b) \<lparr>patch_isActive = Some False, patch_metadata = None\<rparr>"
    and r: "r = Json Not_banned"
    using assms by (auto simp: get_api_game_check_ban_def)
  show "r = Json Not_banned" by (rule r)
  show "getBanByRobloxUserId st' sid rid = Some (b\<lparr>isActive := False\<rparr>)"
    using assms(1) by (simp add: st' getBanByRobloxUserId_updateBan apply_ban_patch_def)
  show "\<forall>x \<in> set (bans st'). ban_id x = ban_id b \<longrightarrow> \<not> isActive x"
    by (auto simp: st' updateBan_def apply_ban_patch_def)
next
  assume "ban_expiresAt b = None \<or> (\<exists>e. ban_expiresAt b = Some e \<and> now \<le> e)"
  then show "r = Json (Banned (ban_id b) (reason b) (ban_createdAt b) (ban_expiresAt b))" "st' = st"
    using assms by (auto simp: get_api_game_check_ban_def)
qed

text \<open>The ban that ran out at 2000 is checked at 5000, and the ban without expiry as well.\<close>

theorem check_ban_lazy_expiry_witness:
  "getBanByRobloxUserId ex_expiring ''srv-1'' ''4242'' = Some (ex_ban\<lparr>ban_expiresAt := Some 2000\<rparr>) \<and>
   fst (get_api_game_check_ban ex_expiring 5000 ''srv-1'' ''4242'') = Json Not_banned \<and>
   getBanByRobloxUserId (fst (snd (get_api_game_check_ban ex_expiring 5000 ''srv-1'' ''4242'')))
       ''srv-1'' ''4242''
     = Some (ex_ban\<lparr>ban_expiresAt := Some 2000, isActive := False\<rparr>) \<and>
   fst (get_api_game_check_ban ex_pending 5000 ''srv-1'' ''4242'')
     = Json (Banned ''ban-1'' ''exploiting'' 1000 None) \<and>
   fst (snd (get_api_game_check_ban ex_pending 5000 ''srv-1'' ''4242'')) = ex_pending"
proof -
  let ?P = "get_api_game_check_ban ex_expiring 5000 ''srv-1'' ''4242''"
  let ?Q = "get_api_game_check_ban ex_pending 5000 ''srv-1'' ''4242''"
  have b: "getBanByRobloxUserId ex_expiring ''srv-1'' ''4242'' = Some (ex_ban\<lparr>ban_expiresAt := Some 2000\<rparr>)"
    by (simp add: storage_defs ex_defs)
  have c: "getBanByRobloxUserId ex_pending ''srv-1'' ''4242'' = Some ex_ban"
    by (simp add: storage_defs ex_defs)
  have p: "?P = (fst ?P, fst (snd ?P), snd (snd ?P))" and q: "?Q = (fst ?Q, fst (snd ?Q), snd (snd ?Q))"
    by simp_all
  from check_ban_lazy_expiry [OF b p]
  have "fst ?P = Json Not_banned \<and>
        getBanByRobloxUserId (fst (snd ?P)) ''srv-1'' ''4242''
          = Some (ex_ban\<lparr>ban_expiresAt := Some 2000, isActive := False\<rparr>)"
    by simp
  moreover from check_ban_lazy_expiry [OF c q]
  have "fst ?Q = Json (Banned ''ban-1'' ''exploiting'' 1000 None) \<and> fst (snd ?Q) = ex_pending"
    by (simp add: ex_ban_def)
  ultimately show ?thesis using b by simp
qed

subsection \<open>Shifts\<close>

text \<open>
  C8, as the code has it. \<^verbatim>\<open>POST /api/shifts/end\<close> for an existing server first checks that
  the requester is the owner or a member of the server; if not, the answer is 403 and
  storage is unchanged, whether or not the requester has an active shift there. For an
  owner or member: without an active shift on the server the answer is
  404 and storage is unchanged; with an active shift the answer is 200, the shift is
  stored as \<^verbatim>\<open>completed\<close> with the end time, and the broadcast carries the duration, the end
  time minus the shift's start time.
\<close>

theorem shifts_end_completes:
  assumes "getServer st sid = Some srv" and "sid \<noteq> []"
    and "post_api_shifts_end st now u (Some sid) = (r, st', effs)"
  shows "(ownerId srv \<noteq> user_id u \<and> getServerMemberByUserAndServer st (user_id u) sid = None \<longrightarrow>
            status_code r = 403 \<and> st' = st) \<and>
         (ownerId srv = user_id u \<or> getServerMemberByUserAndServer st (user_id u) sid \<noteq> None \<longrightarrow>
            (getActiveShiftByUserId st (user_id u) sid = None \<longrightarrow>
               r = Error 404 ''No active shift found'' \<and> st' = st) \<and>
            (\<forall>a. getActiveShiftByUserId st (user_id u) sid = Some a \<longrightarrow>
               status_code r = 200 \<and>
               a\<lparr>endTime := Some now, shift_status := ''completed''\<rparr> \<in> set (shifts st') \<and>
               (\<forall>x \<in> set (shifts st'). shift_id x = shift_id a \<longrightarrow>
                  shift_status x = ''completed'' \<and> endTime x = Some now) \<and>
               effs = [Broadcast (Shift_ended sid (user_id u) (shift_id a) (now - startTime a))]))"
proof (intro conjI impI allI)
  assume "ownerId srv \<noteq> user_id u \<and> getServerMemberByUserAndServer st (user_id u) sid = None"
  then show "status_code r = 403" "st' = st"
    using assms by (auto simp: post_api_shifts_end_def)
next
  assume auth: "ownerId srv = user_id u \<or> getServerMemberByUserAndServer st (user_id u) sid \<noteq> None"
    and "getActiveShiftByUserId st (user_id u) sid = None"
  then show "r = Error 404 ''No active shift found''" "st' = st"
    using assms by (auto simp: post_api_shifts_end_def)
next
  fix a
  assume auth: "ownerId srv = user_id u \<or> getServerMemberByUserAndServer st (user_id u) sid \<noteq> None"
    and a: "getActiveShiftByUserId st (user_id u) sid = Some a"
  have res: "r = Json (fst (updateShift st (shift_id a)
                 \<lparr>patch_endTime = Some now, patch_shift_status = Some ''completed'', patch_metrics = None\<rparr>))"
    "st' = snd (updateShift st (shift_id a)
                 \<lparr>patch_endTime = Some now, patch_shift_status = Some ''completed'', patch_metrics = None\<rparr>)"
    "effs = [Broadcast (Shift_ended sid (user_id u) (shift_id a) (now - startTime a))]"
    using assms auth a by (auto simp: post_api_shifts_end_def Let_def split: prod.splits)
  show "status_code r = 200" by (simp add: res)
  show "effs = [Broadcast (Shift_ended sid (user_id u) (shift_id a) (now - startTime a))]"
    by (rule res)
  have "a \<in> set (shifts st)"
    using a by (auto simp: getActiveShiftByUserId_def dest: find_holds)
  then show "a\<lparr>endTime := Some now, shift_status := ''completed''\<rparr> \<in> set (shifts st')"
    by (force simp: res shifts_updateShift apply_shift_patch_def)
  show "\<forall>x \<in> set (shifts st'). shift_id x = shift_id a \<longrightarrow>
          shift_status x = ''completed'' \<and> endTime x = Some now"
    by (auto simp: res shifts_updateShift apply_shift_patch_def)
qed

text \<open>The moderator, a member on shift since 1000, ends the shift at 5000.\<close>

theorem shifts_end_completes_witness:
  "getActiveShiftByUserId ex_on_shift ''u-mod'' ''srv-1'' = Some ex_shift \<and>
   status_code (fst (post_api_shifts_end ex_on_shift 5000 ex_mod (Some ''srv-1''))) = 200 \<and>
   ex_shift\<lparr>endTime := Some 5000, shift_status := ''completed''\<rparr>
     \<in> set (shifts (fst (snd (post_api_shifts_end ex_on_shift 5000 ex_mod (Some ''srv-1''))))) \<and>
   snd (snd (post_api_shifts_end ex_on_shift 5000 ex_mod (Some ''srv-1'')))
     = [Broadcast (Shift_ended ''srv-1'' ''u-mod'' ''sh-1'' 4000)]"
proof -
  let ?P = "post_api_shifts_end ex_on_shift 5000 ex_mod (Some ''srv-1'')"
  have s: "getServer ex_on_shift ''srv-1'' = Some ex_server"
    by (simp add: storage_defs ex_defs)
  have ne: "''srv-1'' \<noteq> []"
    by simp
  have m: "getServerMemberByUserAndServer ex_on_shift (user_id ex_mod) ''srv-1'' \<noteq> None"
    by (simp add: storage_defs ex_defs)
  have a: "getActiveShiftByUserId ex_on_shift (user_id ex_mod) ''srv-1'' = Some ex_shift"
    by (simp add: storage_defs ex_defs)
  have p: "?P = (fst ?P, fst (snd ?P), snd (snd ?P))"
    by simp
  from shifts_end_completes [OF s ne p] m a
  have "status_code (fst ?P) = 200 \<and>
        ex_shift\<lparr>endTime := Some 5000, shift_status := ''completed''\<rparr> \<in> set (shifts (fst (snd ?P))) \<and>
        snd (snd ?P) = [Broadcast (Shift_ended ''srv-1'' (user_id ex_mod) (shift_id ex_shift)
                                     (5000 - startTime ex_shift))]"
    by simp
  then show ?thesis
    using a by (simp add: ex_mod_def ex_shift_def)
qed

text \<open>
  C8, as the spec has it, fails: the moderator has an active shift on the server but is
  no longer a member of it; the request to end the shift is answered with 403 and the
  shift stays active.
\<close>

theorem removed_member_cannot_end_shift:
  "getActiveShiftByUserId ex_removed_member (user_id ex_mod) ''srv-1'' = Some ex_shift \<and>
   shift_status ex_shift = ''active'' \<and>
   post_api_shifts_end ex_removed_member 5000 ex_mod (Some ''srv-1'')
     = (Error 403 ''Not authorized - you must be a member of this server'', ex_removed_member, [])"
  by (simp add: post_api_shifts_end_def storage_defs ex_defs Let_def)

text \<open>
  C10. The claim that starting a shift never produces a second active shift for the same
  user and server does not hold of the handler. The moderator, a member without a shift,
  sends \<^verbatim>\<open>POST /api/shifts/start\<close> twice, and the second request is read before the first
  one's \<^verbatim>\<open>createShift\<close> has run. Both requests pass the check for an active shift, since
  both are checked against the storage without a shift; both are answered with 200 and
  both insert, and the table then holds two active shifts of the moderator on the server.
  Had the second check run after the first insert, it would have refused with 400.
\<close>

theorem overlapping_starts_create_two_active_shifts:
  "one_active_shift ex_idle \<and>
   post_api_shifts_start_check ex_idle ex_mod (Some ''srv-1'') = None \<and>
   status_code (fst (post_api_shifts_start_create ex_idle 5000 ''sh-1'' ex_mod ''srv-1'')) = 200 \<and>
   status_code
     (fst (post_api_shifts_start_create
             (fst (snd (post_api_shifts_start_create ex_idle 5000 ''sh-1'' ex_mod ''srv-1'')))
             5001 ''sh-2'' ex_mod ''srv-1'')) = 200 \<and>
   map (\<lambda>s. (shift_id s, shift_userId s, shift_serverId s, shift_status s))
     (shifts (fst (snd (post_api_shifts_start_create
                          (fst (snd (post_api_shifts_start_create ex_idle 5000 ''sh-1'' ex_mod ''srv-1'')))
                          5001 ''sh-2'' ex_mod ''srv-1''))))
     = [(''sh-1'', ''u-mod'', ''srv-1'', ''active''), (''sh-2'', ''u-mod'', ''srv-1'', ''active'')] \<and>
   \<not> one_active_shift
        (fst (snd (post_api_shifts_start_create
                     (fst (snd (post_api_shifts_start_create ex_idle 5000 ''sh-1'' ex_mod ''srv-1'')))
                     5001 ''sh-2'' ex_mod ''srv-1''))) \<and>
   post_api_shifts_start_check
       (fst (snd (post_api_shifts_start_create ex_idle 5000 ''sh-1'' ex_mod ''srv-1'')))
       ex_mod (Some ''srv-1'')
     = Some (ErrorShift 400 ''You already have an active shift'' ''sh-1'')"
  by (simp add: post_api_shifts_start_check_def post_api_shifts_start_create_def
        one_active_shift_def storage_defs ex_defs Let_def)

text \<open>
  The two parts, run one after the other on the same storage, are the handler: a request
  that is served without another one in between behaves as \<^const>\<open>post_api_shifts_start\<close>.
\<close>

lemma post_api_shifts_start_phases:
  "post_api_shifts_start st now new_id u serverId =
     (case post_api_shifts_start_check st u serverId of
        Some r \<Rightarrow> (r, st, [])
      | None \<Rightarrow>
          post_api_shifts_start_create st now new_id u
            (case serverId of None \<Rightarrow> [] | Some sid \<Rightarrow> sid))"
  by (simp add: post_api_shifts_start_def post_api_shifts_start_check_def
        post_api_shifts_start_create_def Let_def split: option.splits)

text \<open>
  Served one at a time, both routes that start a shift refuse when the requester already
  has an active shift on the server: the answer has a 4xx status (400 with the message
  "You already have an active shift" once the requester has passed the route's
  authorization check) and storage is unchanged. And if no two active shifts of the
  table belong to the same user and server before such a request, none do after it.
\<close>

theorem start_keeps_one_active_shift:
  "(post_api_shifts_start st now new_id u serverId = (r, st', effs) \<longrightarrow>
      (\<forall>sid a. serverId = Some sid \<and> getActiveShiftByUserId st (user_id u) sid = Some a \<longrightarrow>
         400 \<le> status_code r \<and> status_code r < 500 \<and> st' = st \<and>
         (\<forall>srv. sid \<noteq> [] \<and> getServer st sid = Some srv \<and>
                (ownerId srv = user_id u \<or> getServerMemberByUserAndServer st (user_id u) sid \<noteq> None) \<longrightarrow>
                r = ErrorShift 400 ''You already have an active shift'' (shift_id a))) \<and>
      (one_active_shift st \<longrightarrow> one_active_shift st')) \<and>
   (post_api_servers_shifts_start st2 now2 new_id2 u2 sid2 = (r2, st2', effs2) \<longrightarrow>
      (\<forall>a. getActiveShiftByUserId st2 (user_id u2) sid2 = Some a \<longrightarrow>
         400 \<le> status_code r2 \<and> status_code r2 < 500 \<and> st2' = st2 \<and>
         (\<forall>srv. getServer st2 sid2 = Some srv \<and> ownerId srv = user_id u2 \<longrightarrow>
                r2 = Error 400 ''You already have an active shift'')) \<and>
      (one_active_shift st2 \<longrightarrow> one_active_shift st2'))"
proof (intro conjI impI allI)
  assume run: "post_api_shifts_start st now new_id u serverId = (r, st', effs)"
  {
    fix sid a
    assume "serverId = Some sid \<and> getActiveShiftByUserId st (user_id u) sid = Some a"
    with post_api_shifts_start_refuses [of st u sid a now new_id r st' effs] run
    show "400 \<le> status_code r" "status_code r < 500" "st' = st" by auto
  }
  {
    fix sid a srv
    assume "serverId = Some sid \<and> getActiveShiftByUserId st (user_id u) sid = Some a"
      and "sid \<noteq> [] \<and> getServer st sid = Some srv \<and>
           (ownerId srv = user_id u \<or> getServerMemberByUserAndServer st (user_id u) sid \<noteq> None)"
    with run show "r = ErrorShift 400 ''You already have an active shift'' (shift_id a)"
      by (auto simp: post_api_shifts_start_def)
  }
  {
    assume "one_active_shift st"
    with post_api_shifts_start_invariant [of st now new_id u serverId] run
    show "one_active_shift st'" by simp
  }
next
  assume run: "post_api_servers_shifts_start st2 now2 new_id2 u2 sid2 = (r2, st2', effs2)"
  {
    fix a
    assume "getActiveShiftByUserId st2 (user_id u2) sid2 = Some a"
    with post_api_servers_shifts_start_refuses [of st2 u2 sid2 a now2 new_id2 r2 st2' effs2] run
    show "400 \<le> status_code r2" "status_code r2 < 500" "st2' = st2" by auto
  }
  {
    fix a srv
    assume "getActiveShiftByUserId st2 (user_id u2) sid2 = Some a"
      and "getServer st2 sid2 = Some srv \<and> ownerId srv = user_id u2"
    with run show "r2 = Error 400 ''You already have an active shift''"
      by (auto simp: post_api_servers_shifts_start_def)
  }
  {
    assume "one_active_shift st2"
    with post_api_servers_shifts_start_invariant [of st2 now2 new_id2 u2 sid2] run
    show "one_active_shift st2'" by simp
  }
qed

text \<open>The moderator on shift asks for a second shift; the owner, who has none, starts one.\<close>

theorem start_keeps_one_active_shift_witness:
  "one_active_shift ex_on_shift \<and>
   getActiveShiftByUserId ex_on_shift (user_id ex_mod) ''srv-1'' = Some ex_shift \<and>
   fst (post_api_shifts_start ex_on_shift 5000 ''sh-2'' ex_mod (Some ''srv-1''))
     = ErrorShift 400 ''You already have an active shift'' ''sh-1'' \<and>
   fst (snd (post_api_shifts_start ex_on_shift 5000 ''sh-2'' ex_mod (Some ''srv-1''))) = ex_on_shift \<and>
   length (shifts (fst (snd (post_api_servers_shifts_start ex_on_shift 5000 ''sh-2'' ex_owner ''srv-1''))))
     = 2 \<and>
   one_active_shift (fst (snd (post_api_servers_shifts_start ex_on_shift 5000 ''sh-2'' ex_owner ''srv-1'')))"
proof -
  let ?P = "post_api_shifts_start ex_on_shift 5000 ''sh-2'' ex_mod (Some ''srv-1'')"
  let ?Q = "post_api_servers_shifts_start ex_on_shift 5000 ''sh-2'' ex_owner ''srv-1''"
  have inv: "one_active_shift ex_on_shift"
    by (simp add: one_active_shift_def ex_defs)
  have a: "getActiveShiftByUserId ex_on_shift (user_id ex_mod) ''srv-1'' = Some ex_shift"
    by (simp add: storage_defs ex_defs)
  have s: "getServer ex_on_shift ''srv-1'' = Some ex_server"
    by (simp add: storage_defs ex_defs)
  have m: "getServerMemberByUserAndServer ex_on_shift (user_id ex_mod) ''srv-1'' \<noteq> None"
    by (simp add: storage_defs ex_defs)
  have len: "length (shifts (fst (snd ?Q))) = 2"
    by (simp add: post_api_servers_shifts_start_def storage_defs ex_defs)
  note inst = start_keeps_one_active_shift [of ex_on_shift 5000 "''sh-2''" ex_mod "Some ''srv-1''"
      "fst ?P" "fst (snd ?P)" "snd (snd ?P)" ex_on_shift 5000 "''sh-2''" ex_owner "''srv-1''"
      "fst ?Q" "fst (snd ?Q)" "snd (snd ?Q)"]
  from inst a s m have "fst ?P = ErrorShift 400 ''You already have an active shift'' (shift_id ex_shift)"
    by simp
  moreover from inst a have "fst (snd ?P) = ex_on_shift"
    by simp
  moreover from inst inv have "one_active_shift (fst (snd ?Q))"
    by simp
  ultimately show ?thesis
    using inv a len by (simp add: ex_shift_def)
qed

subsection \<open>Sessions and the OAuth nonce\<close>

text \<open>
  C7, as the code has it. A callback request that carries an authorization code and no
  OAuth error goes on to the token exchange exactly when its state carries a nonce that
  is in the nonce store and not past its expiry; a request that does not go on is
  redirected. A request with an error is redirected with \<^verbatim>\<open>oauth_failed\<close>, and one without
  error and without code with \<^verbatim>\<open>missing_code\<close>, before the state is looked at: the nonce
  store is left as it was. No request that is redirected changes the store, but for the
  deletion of the nonce it carried when that nonce was past its expiry.
  \<^verbatim>\<open>/api/auth/discord\<close> stores the nonce it issues with an expiry of 10 minutes after the
  request. A callback that goes on deletes its nonce, so that no later callback on the
  resulting store goes on with the same nonce; and in every run of the two endpoints from
  the empty store, a nonce lets at most as many callbacks through as the number of times
  it was issued.
\<close>

theorem callback_enforces_nonce:
  "(truthy (q_code q) \<and> \<not> truthy (q_error q) \<longrightarrow>
      proceeds (fst (get_api_auth_discord_callback decode os now q)) =
        (\<exists>n e. carried_nonce decode q = Some n \<and> os n = Some e \<and> now \<le> e)) \<and>
   (\<not> proceeds (fst (get_api_auth_discord_callback decode os now q)) \<longrightarrow>
      (\<exists>code detail. fst (get_api_auth_discord_callback decode os now q) = Redirect code detail)) \<and>
   snd (get_api_auth_discord os0 t0 m ic rt) m = Some (t0 + 600000) \<and>
   (proceeds (fst (get_api_auth_discord_callback decode os now q)) \<longrightarrow>
      (\<exists>n. carried_nonce decode q = Some n \<and>
           snd (get_api_auth_discord_callback decode os now q) n = None \<and>
           (\<forall>now2 q2. carried_nonce decode q2 = Some n \<longrightarrow>
              \<not> proceeds (fst (get_api_auth_discord_callback decode
                                 (snd (get_api_auth_discord_callback decode os now q)) now2 q2))))) \<and>
   validations decode k Map.empty reqs \<le> issues k reqs \<and>
   (truthy (q_error q) \<longrightarrow>
      get_api_auth_discord_callback decode os now q = (Redirect ''oauth_failed'' (q_error q), os)) \<and>
   (\<not> truthy (q_error q) \<and> \<not> truthy (q_code q) \<longrightarrow>
      get_api_auth_discord_callback decode os now q = (Redirect ''missing_code'' None, os)) \<and>
   (\<not> proceeds (fst (get_api_auth_discord_callback decode os now q)) \<longrightarrow>
      snd (get_api_auth_discord_callback decode os now q) = os \<or>
      (\<exists>n e. truthy (q_code q) \<and> \<not> truthy (q_error q) \<and> carried_nonce decode q = Some n \<and>
             os n = Some e \<and> e < now \<and>
             get_api_auth_discord_callback decode os now q
               = (Redirect ''state_expired'' None, os(n := None))))"
proof (intro conjI impI)
  assume "truthy (q_code q) \<and> \<not> truthy (q_error q)"
  then show "proceeds (fst (get_api_auth_discord_callback decode os now q)) =
        (\<exists>n e. carried_nonce decode q = Some n \<and> os n = Some e \<and> now \<le> e)"
    by (simp add: callback_proceeds_iff)
next
  assume "\<not> proceeds (fst (get_api_auth_discord_callback decode os now q))"
  then show "\<exists>code detail. fst (get_api_auth_discord_callback decode os now q) = Redirect code detail"
    by (cases "fst (get_api_auth_discord_callback decode os now q)") (simp_all add: proceeds_def)
next
  show "snd (get_api_auth_discord os0 t0 m ic rt) m = Some (t0 + 600000)"
    by (simp add: get_api_auth_discord_def Let_def)
next
  assume go: "proceeds (fst (get_api_auth_discord_callback decode os now q))"
  obtain r os' where step: "get_api_auth_discord_callback decode os now q = (r, os')"
    by (cases "get_api_auth_discord_callback decode os now q")
  with go have "proceeds r" by simp
  from callback_consumes [OF step this]
  obtain n where n: "carried_nonce decode q = Some n" "os' = os(n := None)" by blast
  then have gone: "os' n = None" by simp
  have "\<forall>now2 q2. carried_nonce decode q2 = Some n \<longrightarrow>
          \<not> proceeds (fst (get_api_auth_discord_callback decode os' now2 q2))"
    using gone callback_needs_stored_nonce [of decode _ n os'] by blast
  with n(1) gone step
  show "\<exists>n. carried_nonce decode q = Some n \<and>
           snd (get_api_auth_discord_callback decode os now q) n = None \<and>
           (\<forall>now2 q2. carried_nonce decode q2 = Some n \<longrightarrow>
              \<not> proceeds (fst (get_api_auth_discord_callback decode
                                 (snd (get_api_auth_discord_callback decode os now q)) now2 q2)))"
    by auto
next
  show "validations decode k Map.empty reqs \<le> issues k reqs"
    using validations_bound [of decode k Map.empty reqs] by simp
next
  assume "truthy (q_error q)"
  then show "get_api_auth_discord_callback decode os now q = (Redirect ''oauth_failed'' (q_error q), os)"
    by (rule callback_error_guard)
next
  assume "\<not> truthy (q_error q) \<and> \<not> truthy (q_code q)"
  then show "get_api_auth_discord_callback decode os now q = (Redirect ''missing_code'' None, os)"
    by (simp add: callback_code_guard)
next
  assume "\<not> proceeds (fst (get_api_auth_discord_callback decode os now q))"
  then show "snd (get_api_auth_discord_callback decode os now q) = os \<or>
      (\<exists>n e. truthy (q_code q) \<and> \<not> truthy (q_error q) \<and> carried_nonce decode q = Some n \<and>
             os n = Some e \<and> e < now \<and>
             get_api_auth_discord_callback decode os now q
               = (Redirect ''state_expired'' None, os(n := None)))"
    by (rule callback_redirect_store)
qed

text \<open>
  The nonce issued at 1000 is presented at 2000 with a code, in the state string the
  issuing request produced; it is good until 601000. Presented again at 3000 it is
  refused. Presented with an OAuth error, it is redirected and stays in the store.
\<close>

theorem callback_enforces_nonce_witness:
  "truthy (q_code ex_query) \<and> \<not> truthy (q_error ex_query) \<and>
   ex_decode ex_state = Some (fst (get_api_auth_discord Map.empty 1000 ex_nonce None None)) \<and>
   carried_nonce ex_decode ex_query = Some ex_nonce \<and>
   ex_issued ex_nonce = Some 601000 \<and>
   proceeds (fst (get_api_auth_discord_callback ex_decode ex_issued 2000 ex_query)) \<and>
   snd (get_api_auth_discord_callback ex_decode ex_issued 2000 ex_query) ex_nonce = None \<and>
   \<not> proceeds (fst (get_api_auth_discord_callback ex_decode
                      (snd (get_api_auth_discord_callback ex_decode ex_issued 2000 ex_query))
                      3000 ex_query)) \<and>
   get_api_auth_discord_callback ex_decode ex_issued 2000 (ex_query\<lparr>q_error := Some ''access_denied''\<rparr>)
     = (Redirect ''oauth_failed'' (Some ''access_denied''), ex_issued)"
proof -
  have c: "truthy (q_code ex_query) \<and> \<not> truthy (q_error ex_query)"
    by (simp add: truthy_def ex_query_def)
  have d: "ex_decode ex_state = Some (fst (get_api_auth_discord Map.empty 1000 ex_nonce None None))"
    by (simp add: ex_decode_def get_api_auth_discord_def truthy_def Let_def)
  have ne: "ex_state \<noteq> []"
    by (simp add: ex_state_def)
  have n: "carried_nonce ex_decode ex_query = Some ex_nonce"
    using ne by (simp add: carried_nonce_def ex_decode_def ex_query_def)
  note inst = callback_enforces_nonce [of ex_query ex_decode ex_issued 2000 Map.empty 1000 ex_nonce
      None None ex_nonce "[]"]
  from inst [THEN conjunct2, THEN conjunct2, THEN conjunct1]
  have i: "ex_issued ex_nonce = Some 601000"
    by (simp add: ex_issued_def)
  from inst [THEN conjunct1] c n i
  have go: "proceeds (fst (get_api_auth_discord_callback ex_decode ex_issued 2000 ex_query))"
    by simp
  from inst [THEN conjunct2, THEN conjunct2, THEN conjunct2, THEN conjunct1] go
  obtain n' where n': "carried_nonce ex_decode ex_query = Some n'"
    "snd (get_api_auth_discord_callback ex_decode ex_issued 2000 ex_query) n' = None"
    "\<forall>now2 q2. carried_nonce ex_decode q2 = Some n' \<longrightarrow>
        \<not> proceeds (fst (get_api_auth_discord_callback ex_decode
                           (snd (get_api_auth_discord_callback ex_decode ex_issued 2000 ex_query))
                           now2 q2))"
    by blast
  from n'(1) n have same: "n' = ex_nonce" by simp
  from n'(3) n same
  have again: "\<not> proceeds (fst (get_api_auth_discord_callback ex_decode
                      (snd (get_api_auth_discord_callback ex_decode ex_issued 2000 ex_query))
                      3000 ex_query))"
    by blast
  have e: "truthy (q_error (ex_query\<lparr>q_error := Some ''access_denied''\<rparr>))"
    by (simp add: truthy_def)
  from callback_enforces_nonce [of "ex_query\<lparr>q_error := Some ''access_denied''\<rparr>" ex_decode ex_issued
      2000 Map.empty 1000 ex_nonce None None ex_nonce "[]",
      THEN conjunct2, THEN conjunct2, THEN conjunct2, THEN conjunct2, THEN conjunct2,
      THEN conjunct1] e
  have err: "get_api_auth_discord_callback ex_decode ex_issued 2000 (ex_query\<lparr>q_error := Some ''access_denied''\<rparr>)
     = (Redirect ''oauth_failed'' (Some ''access_denied''), ex_issued)"
    by simp
  from c d n i go n'(2) same again err show ?thesis
    by simp
qed

text \<open>
  C7, as the spec has it, fails: the request carries the state string that the issuing
  request produced, with the issued, stored, unexpired nonce, but no code; it is
  redirected with \<^verbatim>\<open>missing_code\<close> and the nonce stays in the store.
\<close>

theorem valid_nonce_without_code_redirects:
  "ex_decode ex_state = Some (fst (get_api_auth_discord Map.empty 1000 ex_nonce None None)) \<and>
   carried_nonce ex_decode (ex_query\<lparr>q_code := None\<rparr>) = Some ex_nonce \<and>
   ex_issued ex_nonce = Some 601000 \<and>
   (2000 :: int) \<le> 601000 \<and>
   get_api_auth_discord_callback ex_decode ex_issued 2000 (ex_query\<lparr>q_code := None\<rparr>)
     = (Redirect ''missing_code'' None, ex_issued)"
  by (simp add: get_api_auth_discord_callback_def get_api_auth_discord_def carried_nonce_def
        truthy_def ex_decode_def ex_query_def ex_issued_def ex_state_def Let_def)

text \<open>
  C9, as the code has it. \<^const>\<open>requireAuth\<close> answers 401 exactly when the session cookie is
  absent or empty, or is not in the session map, or its session is past its expiry, or
  the user of the session is not found in storage; otherwise the request goes on with
  that user. When the token's session is past its expiry the entry is deleted, and the
  token is rejected from then on, whatever the storage and the time. A session made by
  \<^const>\<open>createSession\<close> for an existing user is accepted up to 7 days (604800000 ms) after its
  creation and rejected later.
\<close>

theorem requireAuth_rejects:
  "requireAuth st ss now token = (r, ss') \<Longrightarrow>
     ((r = Error 401 ''Not authenticated'') =
        (token = None \<or> token = Some [] \<or>
         (\<exists>t. token = Some t \<and>
            (ss t = None \<or>
             (\<exists>s. ss t = Some s \<and>
                (session_expiresAt s < now \<or> getUser st (session_userId s) = None)))))) \<and>
     (r \<noteq> Error 401 ''Not authenticated'' \<longrightarrow> (\<exists>usr. r = Json usr)) \<and>
     (\<forall>t s. token = Some t \<and> t \<noteq> [] \<and> ss t = Some s \<and> session_expiresAt s < now \<longrightarrow>
        ss' t = None \<and>
        (\<forall>st2 now2. fst (requireAuth st2 ss' now2 token) = Error 401 ''Not authenticated'')) \<and>
     (\<forall>t t0 usr. t \<noteq> [] \<and> getUser st (user_id usr) = Some usr \<longrightarrow>
        fst (requireAuth st (createSession ss t0 t (user_id usr)) now (Some t)) =
          (if now \<le> t0 + 604800000 then Json usr else Error 401 ''Not authenticated''))"
proof (intro conjI allI impI)
  assume run: "requireAuth st ss now token = (r, ss')"
  show "(r = Error 401 ''Not authenticated'') =
        (token = None \<or> token = Some [] \<or>
         (\<exists>t. token = Some t \<and>
            (ss t = None \<or>
             (\<exists>s. ss t = Some s \<and>
                (session_expiresAt s < now \<or> getUser st (session_userId s) = None)))))"
    using run by (rule requireAuth_cases)
  {
    assume "r \<noteq> Error 401 ''Not authenticated''"
    with requireAuth_reply [OF run] show "\<exists>usr. r = Json usr" by blast
  }
  {
    fix t s
    assume old: "token = Some t \<and> t \<noteq> [] \<and> ss t = Some s \<and> session_expiresAt s < now"
    with run have "requireAuth st ss now (Some t) = (r, ss')" by simp
    with old show gone: "ss' t = None" by (blast intro: requireAuth_expired)
    fix st2 now2
    from gone old show "fst (requireAuth st2 ss' now2 token) = Error 401 ''Not authenticated''"
      by (simp add: requireAuth_unknown)
  }
  {
    fix t :: string and t0 :: time and usr :: user
    assume "t \<noteq> [] \<and> getUser st (user_id usr) = Some usr"
    then show "fst (requireAuth st (createSession ss t0 t (user_id usr)) now (Some t)) =
          (if now \<le> t0 + 604800000 then Json usr else Error 401 ''Not authenticated'')"
      by (simp add: createSession_lifetime)
  }
qed

text \<open>The owner's session expires at 8000: accepted at 5000, rejected and deleted at 9000.\<close>

theorem requireAuth_rejects_witness:
  "fst (requireAuth ex_pending ex_sessions 5000 (Some ''tok-1'')) = Json ex_owner \<and>
   fst (requireAuth ex_pending ex_sessions 9000 (Some ''tok-1'')) = Error 401 ''Not authenticated'' \<and>
   snd (requireAuth ex_pending ex_sessions 9000 (Some ''tok-1'')) ''tok-1'' = None \<and>
   fst (requireAuth ex_pending (snd (requireAuth ex_pending ex_sessions 9000 (Some ''tok-1''))) 5000
          (Some ''tok-1'')) = Error 401 ''Not authenticated''"
proof -
  let ?P = "requireAuth ex_pending ex_sessions 5000 (Some ''tok-1'')"
  let ?Q = "requireAuth ex_pending ex_sessions 9000 (Some ''tok-1'')"
  have p: "?P = (fst ?P, snd ?P)" and q: "?Q = (fst ?Q, snd ?Q)"
    by simp_all
  have s: "ex_sessions ''tok-1'' = Some \<lparr>session_userId = ''u-owner'', session_expiresAt = 8000\<rparr>"
    by (simp add: ex_sessions_def)
  have u: "getUser ex_pending ''u-owner'' = Some ex_owner"
    by (simp add: storage_defs ex_defs)
  note at_5000 = requireAuth_rejects [OF p]
  note at_9000 = requireAuth_rejects [OF q]
  from at_5000 [THEN conjunct1] s u have "fst ?P \<noteq> Error 401 ''Not authenticated''"
    by simp
  with at_5000 [THEN conjunct2, THEN conjunct1] obtain usr where usr: "fst ?P = Json usr"
    by blast
  have accepted: "fst ?P = Json ex_owner"
    using usr u s by (simp add: requireAuth_def getUserFromSession_def)
  from at_9000 [THEN conjunct1] s
  have rejected: "fst ?Q = Error 401 ''Not authenticated''"
    by simp
  have old: "Some ''tok-1'' = Some ''tok-1'' \<and> ''tok-1'' \<noteq> [] \<and>
             ex_sessions ''tok-1'' = Some \<lparr>session_userId = ''u-owner'', session_expiresAt = 8000\<rparr> \<and>
             session_expiresAt \<lparr>session_userId = ''u-owner'', session_expiresAt = 8000\<rparr> < 9000"
    using s by simp
  from at_9000 [THEN conjunct2, THEN conjunct2, THEN conjunct1, rule_format, OF old]
  have "snd ?Q ''tok-1'' = None \<and>
        fst (requireAuth ex_pending (snd ?Q) 5000 (Some ''tok-1'')) = Error 401 ''Not authenticated''"
    by blast
  with accepted rejected show ?thesis by simp
qed

text \<open>
  C9, as the spec has it, fails: the cookie is present, its token is in the session map
  and the session is not past its expiry, but storage has no user with the session's
  user id; the request is rejected with 401 (and the session stays in the map).
\<close>

theorem live_session_without_user_rejected:
  "ex_sessions ''tok-1'' = Some \<lparr>session_userId = ''u-owner'', session_expiresAt = 8000\<rparr> \<and>
   \<not> (8000 :: int) < 5000 \<and>
   requireAuth ex_no_owner ex_sessions 5000 (Some ''tok-1'')
     = (Error 401 ''Not authenticated'', ex_sessions)"
  by (simp add: requireAuth_def getUserFromSession_def storage_defs ex_defs)


end
